theory Spec2Isabelle
  imports Main
begin

section \<open>The unload/copy tool of redshift\_unload\_copy.py\<close>

text \<open>
  The module builds one task graph for a table-, schema- or database-level migration
  and hands it to the task manager. The classes it imports (resources, tasks, the S3
  helper, the task manager) live in other modules; their constructors are rendered as
  data, their queries as the fields of an environment record, and the task manager
  after its description in the design document.
\<close>

subsection \<open>Errors\<close>

datatype error =
    NotImplementedError
  | Exception string
  | UnknownHandleError
  | CycleError
  | ExternalError string

subsection \<open>Configuration\<close>

text \<open>
  A region is \<open>None\<close> when the caller passed Python's \<open>None\<close>. A cluster description
  is one of the two dictionaries \<open>unloadSource\<close> and \<open>copyTarget\<close> of the
  configuration file; of its entries the module reads \<open>explicit_ids\<close> only
  (\<open>None\<close>: the key is absent, \<open>Some b\<close>: the truth value of the entry). A
  configuration holds both descriptions: a file that lacks one of them, for which the
  lookups of \<open>add_schema_migration\<close> and \<open>add_table_migration\<close> raise \<open>KeyError\<close>, is
  not a value of this type.
\<close>

type_synonym region = "string option"

record cluster_dict =
  cd_explicit_ids :: "bool option"
  cd_endpoint :: string

record config =
  unloadSource :: cluster_dict
  copyTarget :: cluster_dict

text \<open>
  The global configuration values, with the flags as their Python truth values.
\<close>

record global_config_values =
  connectionPreTest :: bool
  destinationTablePreTest :: bool
  sourceTablePreTest :: bool
  destinationTableAutoCreate :: bool
  tableName :: "string option"

record S3Helper =
  s3_region :: region

record ConfigHelper =
  ch_s3_helper :: "S3Helper option"
  ch_config :: config

subsection \<open>Resources\<close>

text \<open>
  A cluster object carries the serial number of the factory call that created it, which
  stands for its identity as a Python object.
\<close>

record cluster =
  cluster_serial :: nat
  cluster_of_dict :: cluster_dict
  cluster_region :: region

datatype resource_class = TableResource_class | SchemaResource_class | DBResource_class

text \<open>
  The resource classes are declared in module \<open>util.resources\<close>, which the source
  imports. A resource lists the classes it is an instance of and \<open>isinstance\<close> looks
  the class up, so the resources that the constructor of the tool receives may belong to
  any combination of the three classes. The resources that the source itself creates
  with \<open>SchemaResource\<close> and \<open>TableResource\<close> are never tested with \<open>isinstance\<close>.
  Attributes that were never set are \<open>None\<close>; the setters store their argument.
\<close>

record resource =
  res_classes :: "resource_class list"
  res_cluster :: cluster
  res_schema :: "string option"
  res_table :: "string option"
  res_explicit_ids :: "bool option"

definition isinstance :: "resource \<Rightarrow> resource_class \<Rightarrow> bool" where
  "isinstance r c = (c \<in> set (res_classes r))"

definition SchemaResource :: "cluster \<Rightarrow> string \<Rightarrow> resource" where
  "SchemaResource c s =
     \<lparr>res_classes = [SchemaResource_class, DBResource_class], res_cluster = c,
      res_schema = Some s, res_table = None, res_explicit_ids = None\<rparr>"

definition TableResource :: "cluster \<Rightarrow> string option \<Rightarrow> string \<Rightarrow> resource" where
  "TableResource c s t =
     \<lparr>res_classes = [TableResource_class, SchemaResource_class, DBResource_class],
      res_cluster = c, res_schema = s, res_table = Some t, res_explicit_ids = None\<rparr>"

definition get_cluster :: "resource \<Rightarrow> cluster" where
  "get_cluster r = res_cluster r"

definition get_schema :: "resource \<Rightarrow> string option" where
  "get_schema r = res_schema r"

definition set_table :: "resource \<Rightarrow> string \<Rightarrow> resource" where
  "set_table r t = r\<lparr>res_table := Some t\<rparr>"

definition set_cluster :: "resource \<Rightarrow> cluster \<Rightarrow> resource" where
  "set_cluster r c = r\<lparr>res_cluster := c\<rparr>"

definition set_explicit_ids :: "resource \<Rightarrow> bool \<Rightarrow> resource" where
  "set_explicit_ids r b = r\<lparr>res_explicit_ids := Some b\<rparr>"

subsection \<open>Tasks\<close>

record S3Details =
  s3d_config_helper :: ConfigHelper
  s3d_source :: resource
  s3d_encryption_key_id :: string

datatype task =
    NoOperationTask
  | FailIfResourceClusterDoesNotExistsTask resource
  | FailIfResourceDoesNotExistsTask resource
  | CreateIfTargetDoesNotExistTask resource resource
  | UnloadDataToS3Task resource S3Details
  | CopyDataFromS3Task resource S3Details
  | CleanupS3StagingAreaTask S3Details

definition encryptionKeyID :: string where
  "encryptionKeyID = ''alias/RedshiftUnloadCopyUtility''"

subsection \<open>The task manager\<close>

text \<open>
  Modelled from the spec: \<open>TaskManager\<close> (module \<open>util.tasks\<close>) is imported by the
  source and not part of it. Following the design document, the graph is a collection
  of tasks with an edge set, \<open>add\<close> inserts the task, adds an edge from every handle
  in \<open>dependencies\<close> to the task and from the task to every handle in
  \<open>dependency_of\<close>, fails with \<open>UnknownHandleError\<close> when a referenced handle was
  never added and with \<open>CycleError\<close> when the new edge set is not acyclic, and
  returns the handle of the task. The handle of a task is its position in the order of
  insertion; an edge \<open>(a, b)\<close> says that \<open>a\<close> must succeed before \<open>b\<close> starts.
\<close>

record task_manager =
  tasks :: "task list"
  edges :: "(nat \<times> nat) list"

definition TaskManager :: task_manager where
  "TaskManager = \<lparr>tasks = [], edges = []\<rparr>"

definition inserted :: "task_manager \<Rightarrow> task \<Rightarrow> nat list \<Rightarrow> nat list \<Rightarrow> task_manager" where
  "inserted tm t dependency_of dependencies =
     \<lparr>tasks = tasks tm @ [t],
      edges = edges tm @ map (\<lambda>d. (d, length (tasks tm))) dependencies
                       @ map (\<lambda>s. (length (tasks tm), s)) dependency_of\<rparr>"

definition add_task ::
  "task_manager \<Rightarrow> task \<Rightarrow> nat list \<Rightarrow> nat list \<Rightarrow> error + (nat \<times> task_manager)" where
  "add_task tm t dependency_of dependencies =
     (if \<exists>h \<in> set (dependencies @ dependency_of). \<not> h < length (tasks tm)
      then Inl UnknownHandleError
      else if \<not> acyclic (set (edges (inserted tm t dependency_of dependencies)))
      then Inl CycleError
      else Inr (length (tasks tm), inserted tm t dependency_of dependencies))"

subsection \<open>Collaborators\<close>

text \<open>
  The queries the module sends to its collaborators: loading a configuration from S3 or
  from a local file (either may fail), building the source and target resources,
  merging two resources into a table resource, and listing the schemas of a database
  and the tables of a schema.
\<close>

record env =
  get_json_config_as_dict :: "S3Helper \<Rightarrow> string \<Rightarrow> error + config"
  open_json_load :: "string \<Rightarrow> error + config"
  get_source_resource_from_config_helper :: "ConfigHelper \<Rightarrow> region \<Rightarrow> resource"
  get_target_resource_from_config_helper :: "ConfigHelper \<Rightarrow> region \<Rightarrow> resource"
  get_table_resource_from_merging_2_resources :: "resource \<Rightarrow> resource \<Rightarrow> resource"
  list_schemas :: "resource \<Rightarrow> string list"
  list_tables :: "resource \<Rightarrow> string list"

subsection \<open>ConfigHelper\<close>

definition startswith :: "string \<Rightarrow> string \<Rightarrow> bool" where
  "startswith s p = (take (length p) s = p)"

definition ConfigHelper_init :: "env \<Rightarrow> string \<Rightarrow> S3Helper option \<Rightarrow> error + ConfigHelper" where
  "ConfigHelper_init e config_path s3_helper =
     (if startswith config_path ''s3://''
      then (case s3_helper of
              None \<Rightarrow> Inl (Exception ''No region set to get config file but it resides on S3'')
            | Some h \<Rightarrow>
                (case get_json_config_as_dict e h config_path of
                   Inl err \<Rightarrow> Inl err
                 | Inr c \<Rightarrow> Inr \<lparr>ch_s3_helper = s3_helper, ch_config = c\<rparr>))
      else (case open_json_load e config_path of
              Inl err \<Rightarrow> Inl err
            | Inr c \<Rightarrow> Inr \<lparr>ch_s3_helper = s3_helper, ch_config = c\<rparr>))"

subsection \<open>UnloadCopyTool\<close>

text \<open>
  The attributes of the tool, together with the effects it has outside itself: the
  module-level dictionary \<open>config_parameters\<close>, the number of cluster objects created
  so far through \<open>ResourceFactory.get_cluster_from_cluster_dict\<close>, and the calls of
  \<open>task_manager.run\<close>, each with its \<open>max_threads\<close> and the graph it was given.
\<close>

record tool =
  tool_region :: region
  s3_helper :: S3Helper
  config_helper :: ConfigHelper
  task_manager :: task_manager
  barrier_after_all_cluster_pre_tests :: nat
  barrier_after_all_resource_pre_tests :: nat
  config_parameters :: global_config_values
  clusters_created :: nat
  run_calls :: "(nat \<times> task_manager) list"

text \<open>
  A step of the builder returns the tool, or the error raised together with the tool as
  it was at that moment.
\<close>

type_synonym 'a outcome = "(error \<times> tool) + 'a"

definition bind_outcome :: "'a outcome \<Rightarrow> ('a \<Rightarrow> 'b outcome) \<Rightarrow> 'b outcome" where
  "bind_outcome m f = (case m of Inl x \<Rightarrow> Inl x | Inr a \<Rightarrow> f a)"

definition tm_add_task :: "tool \<Rightarrow> task \<Rightarrow> nat list \<Rightarrow> nat list \<Rightarrow> (nat \<times> tool) outcome" where
  "tm_add_task self t dependency_of dependencies =
     (case add_task (task_manager self) t dependency_of dependencies of
        Inl err \<Rightarrow> Inl (err, self)
      | Inr (h, tm) \<Rightarrow> Inr (h, self\<lparr>task_manager := tm\<rparr>))"

definition run :: "tool \<Rightarrow> nat \<Rightarrow> tool" where
  "run self max_threads = self\<lparr>run_calls := run_calls self @ [(max_threads, task_manager self)]\<rparr>"

text \<open>
  \<open>ResourceFactory.get_cluster_from_cluster_dict\<close> is part of module \<open>util.resources\<close>.
  Its call is rendered as the creation of a cluster object from the description and the
  region, after the comment of the source at the call: "Create an individual cluster
  instance for each task so that they can run in parallel".
\<close>

definition get_cluster_from_cluster_dict :: "tool \<Rightarrow> cluster_dict \<Rightarrow> region \<Rightarrow> cluster \<times> tool" where
  "get_cluster_from_cluster_dict self d r =
     (\<lparr>cluster_serial = clusters_created self, cluster_of_dict = d, cluster_region = r\<rparr>,
      self\<lparr>clusters_created := Suc (clusters_created self)\<rparr>)"

definition add_table_migration ::
  "tool \<Rightarrow> resource \<Rightarrow> resource \<Rightarrow> global_config_values \<Rightarrow> tool outcome" where
  "add_table_migration self0 source destination0 gcv =
     (let destination =
            (if cd_explicit_ids (copyTarget (ch_config (config_helper self0))) = Some True
             then set_explicit_ids destination0 True else destination0);
          cluster_barrier = barrier_after_all_cluster_pre_tests self0;
          resource_barrier = barrier_after_all_resource_pre_tests self0;
          s3_details = \<lparr>s3d_config_helper = config_helper self0, s3d_source = source,
                        s3d_encryption_key_id = encryptionKeyID\<rparr>
      in
      bind_outcome
        (if connectionPreTest gcv
         then bind_outcome
                (if \<not> destinationTablePreTest gcv
                 then bind_outcome
                        (tm_add_task self0 (FailIfResourceClusterDoesNotExistsTask destination)
                           [cluster_barrier] [])
                        (\<lambda>(h, self). Inr self)
                 else Inr self0)
                (\<lambda>self. if \<not> sourceTablePreTest gcv
                   then bind_outcome
                          (tm_add_task self (FailIfResourceClusterDoesNotExistsTask source)
                             [cluster_barrier] [])
                          (\<lambda>(h, self). Inr self)
                   else Inr self)
         else Inr self0)
      (\<lambda>self. bind_outcome
        (if destinationTablePreTest gcv
         then (if destinationTableAutoCreate gcv
               then bind_outcome
                      (tm_add_task self (FailIfResourceClusterDoesNotExistsTask destination)
                         [cluster_barrier] [])
                      (\<lambda>(h, self). Inr self)
               else bind_outcome
                      (tm_add_task self (FailIfResourceDoesNotExistsTask destination)
                         [resource_barrier] [cluster_barrier])
                      (\<lambda>(h, self). Inr self))
         else Inr self)
      (\<lambda>self. bind_outcome
        (if sourceTablePreTest gcv
         then bind_outcome
                (tm_add_task self (FailIfResourceDoesNotExistsTask source)
                   [resource_barrier] [cluster_barrier])
                (\<lambda>(h, self). Inr self)
         else Inr self)
      (\<lambda>self. bind_outcome
        (if destinationTableAutoCreate gcv
         then bind_outcome
                (tm_add_task self (CreateIfTargetDoesNotExistTask source destination)
                   [resource_barrier] [cluster_barrier])
                (\<lambda>(h, self). Inr self)
         else Inr self)
      (\<lambda>self. bind_outcome
        (tm_add_task self (UnloadDataToS3Task source s3_details) [] [resource_barrier])
      (\<lambda>(unload_data, self). bind_outcome
        (tm_add_task self (CopyDataFromS3Task destination s3_details) [] [unload_data])
      (\<lambda>(copy_data, self). bind_outcome
        (tm_add_task self (CleanupS3StagingAreaTask s3_details) [] [copy_data])
      (\<lambda>(s3_cleanup, self). Inr self))))))))"

fun add_schema_tables ::
  "env \<Rightarrow> tool \<Rightarrow> resource \<Rightarrow> resource \<Rightarrow> global_config_values \<Rightarrow> string list \<Rightarrow> tool outcome" where
  "add_schema_tables e self source destination gcv [] = Inr self"
| "add_schema_tables e self source destination gcv (table # tables) =
     (let (source_cluster, self1) =
            get_cluster_from_cluster_dict self
              (unloadSource (ch_config (config_helper self))) (tool_region self);
          source_table = TableResource source_cluster (get_schema source) table;
          (destination_cluster, self2) =
            get_cluster_from_cluster_dict self1
              (copyTarget (ch_config (config_helper self1))) (tool_region self1);
          target_table =
            set_cluster (get_table_resource_from_merging_2_resources e destination source_table)
              destination_cluster
      in bind_outcome (add_table_migration self2 source_table target_table gcv)
           (\<lambda>self'. add_schema_tables e self' source destination gcv tables))"

definition add_schema_migration ::
  "env \<Rightarrow> tool \<Rightarrow> resource \<Rightarrow> resource \<Rightarrow> global_config_values \<Rightarrow> tool outcome" where
  "add_schema_migration e self source destination gcv =
     add_schema_tables e self source destination gcv (list_tables e source)"

fun add_database_schemas ::
  "env \<Rightarrow> tool \<Rightarrow> resource \<Rightarrow> resource \<Rightarrow> global_config_values \<Rightarrow> string list \<Rightarrow> tool outcome" where
  "add_database_schemas e self source destination gcv [] = Inr self"
| "add_database_schemas e self source destination gcv (schema # schemas) =
     (let source_schema = SchemaResource (get_cluster source) schema
      in bind_outcome (add_schema_migration e self source_schema destination gcv)
           (\<lambda>self'. add_database_schemas e self' source destination gcv schemas))"

definition add_database_migration ::
  "env \<Rightarrow> tool \<Rightarrow> resource \<Rightarrow> resource \<Rightarrow> global_config_values \<Rightarrow> tool outcome" where
  "add_database_migration e self source destination gcv =
     add_database_schemas e self source destination gcv (list_schemas e source)"

text \<open>
  The constructor of the tool, in its three parts: it loads the configuration and asks
  for the two resources, creates the task manager with the two barriers
  (\<open>build_barriers\<close>), adds the migration that the classes of the two resources ask
  for (\<open>dispatch\<close>), and runs the task manager with four threads. No task manager
  exists yet when the configuration cannot be loaded, so that error comes without a
  tool.
\<close>

definition build_barriers :: "tool \<Rightarrow> tool outcome" where
  "build_barriers self0 =
     bind_outcome (tm_add_task (self0\<lparr>task_manager := TaskManager\<rparr>) NoOperationTask [] [])
       (\<lambda>(b1, self1). bind_outcome
          (tm_add_task (self1\<lparr>barrier_after_all_cluster_pre_tests := b1\<rparr>) NoOperationTask [] [])
          (\<lambda>(b2, self2). Inr (self2\<lparr>barrier_after_all_resource_pre_tests := b2\<rparr>)))"

definition dispatch ::
  "env \<Rightarrow> tool \<Rightarrow> resource \<Rightarrow> resource \<Rightarrow> global_config_values \<Rightarrow> tool outcome" where
  "dispatch e self source destination gcv =
     (if isinstance source TableResource_class then
        (if isinstance destination DBResource_class then
           (let destination1 =
                  (if \<not> isinstance destination TableResource_class
                   then get_table_resource_from_merging_2_resources e destination source
                   else destination);
                destination2 =
                  (case tableName gcv of
                     None \<Rightarrow> destination1
                   | Some n \<Rightarrow> if n \<noteq> [] \<and> n \<noteq> ''None'' then set_table destination1 n
                              else destination1)
            in add_table_migration self source destination2 gcv)
         else Inl (NotImplementedError, self))
      else if isinstance source SchemaResource_class then
        (if \<not> isinstance destination DBResource_class then Inl (NotImplementedError, self)
         else add_schema_migration e self source destination gcv)
      else if isinstance source DBResource_class then
        (if \<not> isinstance destination DBResource_class then Inl (NotImplementedError, self)
         else add_database_migration e self source destination gcv)
      else Inl (NotImplementedError, self))"

definition UnloadCopyTool_init ::
  "env \<Rightarrow> string \<Rightarrow> region \<Rightarrow> global_config_values \<Rightarrow> (error \<times> tool option) + tool" where
  "UnloadCopyTool_init e config_file region_name gcv =
     (let helper = \<lparr>s3_region = region_name\<rparr> in
      case ConfigHelper_init e config_file (Some helper) of
        Inl err \<Rightarrow> Inl (err, None)
      | Inr ch \<Rightarrow>
          (let source = get_source_resource_from_config_helper e ch region_name;
               destination = get_target_resource_from_config_helper e ch region_name;
               self0 = \<lparr>tool_region = region_name, s3_helper = helper, config_helper = ch,
                        task_manager = TaskManager,
                        barrier_after_all_cluster_pre_tests = 0,
                        barrier_after_all_resource_pre_tests = 0,
                        config_parameters = gcv, clusters_created = 0, run_calls = []\<rparr>
           in case bind_outcome (build_barriers self0)
                     (\<lambda>self. dispatch e self source destination gcv) of
                Inl (err, self) \<Rightarrow> Inl (err, Some self)
              | Inr self \<Rightarrow> Inr (run self 4)))"

subsection \<open>Observations on the task graph\<close>

text \<open>
  The kind of a task, and the direct predecessors and successors of a handle in the
  edge list of the graph.
\<close>

definition is_unload :: "task \<Rightarrow> bool" where
  "is_unload t = (case t of UnloadDataToS3Task r d \<Rightarrow> True | _ \<Rightarrow> False)"

definition is_copy :: "task \<Rightarrow> bool" where
  "is_copy t = (case t of CopyDataFromS3Task r d \<Rightarrow> True | _ \<Rightarrow> False)"

definition predecessors :: "task_manager \<Rightarrow> nat \<Rightarrow> nat set" where
  "predecessors tm h = set (map fst (filter (\<lambda>e. snd e = h) (edges tm)))"

definition successors :: "task_manager \<Rightarrow> nat \<Rightarrow> nat set" where
  "successors tm h = set (map snd (filter (\<lambda>e. fst e = h) (edges tm)))"

subsection \<open>Well-formed builder states\<close>

text \<open>
  Every task kind has a layer: cluster checks (0) come before the first barrier (1),
  resource checks and creations (2) before the second barrier (3), and the transfer
  tasks follow in the order unload (4), copy (5), cleanup (6). A graph is layered when
  every edge leads to a strictly higher layer; a handle is wired when its neighbours
  are the ones its kind asks for. \<open>tool_inv\<close> collects what holds of the tool
  between two calls of \<open>add_task\<close>, \<open>admissible\<close> what the builder has to
  respect when it adds a task, and \<open>added\<close> is the tool after an insertion.
  \<open>table_migration_result\<close> is the tool that \<open>add_table_migration\<close> returns when
  no insertion fails.
\<close>

fun task_level :: "task \<Rightarrow> nat" where
  "task_level NoOperationTask = 0"
| "task_level (FailIfResourceClusterDoesNotExistsTask r) = 0"
| "task_level (FailIfResourceDoesNotExistsTask r) = 2"
| "task_level (CreateIfTargetDoesNotExistTask r d) = 2"
| "task_level (UnloadDataToS3Task r d) = 4"
| "task_level (CopyDataFromS3Task r d) = 5"
| "task_level (CleanupS3StagingAreaTask d) = 6"

definition level :: "tool \<Rightarrow> nat \<Rightarrow> nat" where
  "level self h =
     (if h = barrier_after_all_cluster_pre_tests self then 1
      else if h = barrier_after_all_resource_pre_tests self then 3
      else task_level (tasks (task_manager self) ! h))"

definition layered :: "tool \<Rightarrow> bool" where
  "layered self =
     (\<forall>(a, b) \<in> set (edges (task_manager self)).
        a < length (tasks (task_manager self)) \<and> b < length (tasks (task_manager self)) \<and>
        level self a < level self b)"

definition wired :: "tool \<Rightarrow> nat \<Rightarrow> bool" where
  "wired self h =
     (let tm = task_manager self;
          ts = tasks tm;
          b1 = barrier_after_all_cluster_pre_tests self;
          b2 = barrier_after_all_resource_pre_tests self
      in case ts ! h of
           NoOperationTask \<Rightarrow> h = b1 \<or> h = b2
         | FailIfResourceClusterDoesNotExistsTask r \<Rightarrow>
             predecessors tm h = {} \<and> successors tm h = {b1}
         | FailIfResourceDoesNotExistsTask r \<Rightarrow>
             predecessors tm h = {b1} \<and> successors tm h = {b2}
         | CreateIfTargetDoesNotExistTask r d \<Rightarrow>
             predecessors tm h = {b1} \<and> successors tm h = {b2}
         | UnloadDataToS3Task r d \<Rightarrow> predecessors tm h = {b2}
         | CopyDataFromS3Task r d \<Rightarrow>
             0 < h \<and> is_unload (ts ! (h - 1)) \<and> predecessors tm h = {h - 1}
         | CleanupS3StagingAreaTask d \<Rightarrow>
             0 < h \<and> is_copy (ts ! (h - 1)) \<and> predecessors tm h = {h - 1})"

definition tool_inv :: "tool \<Rightarrow> bool" where
  "tool_inv self =
     (let ts = tasks (task_manager self);
          b1 = barrier_after_all_cluster_pre_tests self;
          b2 = barrier_after_all_resource_pre_tests self
      in b1 < length ts \<and> b2 < length ts \<and> b1 \<noteq> b2 \<and>
         ts ! b1 = NoOperationTask \<and> ts ! b2 = NoOperationTask \<and>
         layered self \<and> (\<forall>h < length ts. wired self h))"

definition admissible :: "tool \<Rightarrow> task \<Rightarrow> nat list \<Rightarrow> nat list \<Rightarrow> bool" where
  "admissible self t dependency_of dependencies =
     (let ts = tasks (task_manager self);
          b1 = barrier_after_all_cluster_pre_tests self;
          b2 = barrier_after_all_resource_pre_tests self
      in (\<forall>d \<in> set dependencies. d < length ts \<and> level self d < task_level t \<and>
            (d = b1 \<or> d = b2 \<or> is_unload (ts ! d) \<or> is_copy (ts ! d))) \<and>
         (\<forall>s \<in> set dependency_of. s < length ts \<and> task_level t < level self s \<and>
            (s = b1 \<or> s = b2)) \<and>
         (case t of
            NoOperationTask \<Rightarrow> False
          | FailIfResourceClusterDoesNotExistsTask r \<Rightarrow>
              dependencies = [] \<and> set dependency_of = {b1}
          | FailIfResourceDoesNotExistsTask r \<Rightarrow>
              set dependencies = {b1} \<and> set dependency_of = {b2}
          | CreateIfTargetDoesNotExistTask r d \<Rightarrow>
              set dependencies = {b1} \<and> set dependency_of = {b2}
          | UnloadDataToS3Task r d \<Rightarrow> set dependencies = {b2}
          | CopyDataFromS3Task r d \<Rightarrow>
              0 < length ts \<and> is_unload (ts ! (length ts - 1)) \<and>
              set dependencies = {length ts - 1}
          | CleanupS3StagingAreaTask d \<Rightarrow>
              0 < length ts \<and> is_copy (ts ! (length ts - 1)) \<and>
              set dependencies = {length ts - 1}))"

definition added :: "tool \<Rightarrow> task \<Rightarrow> nat list \<Rightarrow> nat list \<Rightarrow> tool" where
  "added self t dependency_of dependencies =
     self\<lparr>task_manager := inserted (task_manager self) t dependency_of dependencies\<rparr>"

definition table_migration_result ::
  "tool \<Rightarrow> resource \<Rightarrow> resource \<Rightarrow> global_config_values \<Rightarrow> tool" where
  "table_migration_result self source destination0 gcv =
     (let destination =
            (if cd_explicit_ids (copyTarget (ch_config (config_helper self))) = Some True
             then set_explicit_ids destination0 True else destination0);
          b1 = barrier_after_all_cluster_pre_tests self;
          b2 = barrier_after_all_resource_pre_tests self;
          d = \<lparr>s3d_config_helper = config_helper self, s3d_source = source,
               s3d_encryption_key_id = encryptionKeyID\<rparr>;
          s1 = (if connectionPreTest gcv \<and> \<not> destinationTablePreTest gcv
                then added self (FailIfResourceClusterDoesNotExistsTask destination) [b1] []
                else self);
          s2 = (if connectionPreTest gcv \<and> \<not> sourceTablePreTest gcv
                then added s1 (FailIfResourceClusterDoesNotExistsTask source) [b1] []
                else s1);
          s3 = (if destinationTablePreTest gcv
                then (if destinationTableAutoCreate gcv
                      then added s2 (FailIfResourceClusterDoesNotExistsTask destination) [b1] []
                      else added s2 (FailIfResourceDoesNotExistsTask destination) [b2] [b1])
                else s2);
          s4 = (if sourceTablePreTest gcv
                then added s3 (FailIfResourceDoesNotExistsTask source) [b2] [b1]
                else s3);
          s5 = (if destinationTableAutoCreate gcv
                then added s4 (CreateIfTargetDoesNotExistTask source destination) [b2] [b1]
                else s4);
          u = length (tasks (task_manager s5));
          s6 = added s5 (UnloadDataToS3Task source d) [] [b2];
          s7 = added s6 (CopyDataFromS3Task destination d) [] [u];
          s8 = added s7 (CleanupS3StagingAreaTask d) [] [Suc u]
      in s8)"

subsection \<open>Task kinds\<close>

text \<open>
  The kind of a task, the source resources of the unload tasks and the destination
  resources of the copy tasks in a list of tasks, and the schema and table a resource
  names.
\<close>

datatype task_kind = Barrier | ClusterCheck | ResourceCheck | Creation | Unload | Copy | Cleanup

fun kind_of :: "task \<Rightarrow> task_kind" where
  "kind_of NoOperationTask = Barrier"
| "kind_of (FailIfResourceClusterDoesNotExistsTask r) = ClusterCheck"
| "kind_of (FailIfResourceDoesNotExistsTask r) = ResourceCheck"
| "kind_of (CreateIfTargetDoesNotExistTask r d) = Creation"
| "kind_of (UnloadDataToS3Task r d) = Unload"
| "kind_of (CopyDataFromS3Task r d) = Copy"
| "kind_of (CleanupS3StagingAreaTask d) = Cleanup"

definition unload_sources :: "task list \<Rightarrow> resource list" where
  "unload_sources ts = concat (map (\<lambda>t. case t of UnloadDataToS3Task r d \<Rightarrow> [r] | _ \<Rightarrow> []) ts)"

definition copy_destinations :: "task list \<Rightarrow> resource list" where
  "copy_destinations ts = concat (map (\<lambda>t. case t of CopyDataFromS3Task r d \<Rightarrow> [r] | _ \<Rightarrow> []) ts)"

definition table_name :: "resource \<Rightarrow> string option \<times> string option" where
  "table_name r = (res_schema r, res_table r)"

subsection \<open>What a migration adds\<close>

text \<open>
  The destination and the staging details that \<open>add_table_migration\<close> works with,
  the tasks it adds ahead of the transfer and in all, the kinds of these tasks (which
  depend on the flags only), the cluster that the \<open>k\<close>-th coming call of the cluster
  factory creates, and the tool as it is once the two barriers are in the graph.
\<close>

definition migration_destination :: "tool \<Rightarrow> resource \<Rightarrow> resource" where
  "migration_destination self destination =
     (if cd_explicit_ids (copyTarget (ch_config (config_helper self))) = Some True
      then set_explicit_ids destination True else destination)"

definition migration_s3_details :: "tool \<Rightarrow> resource \<Rightarrow> S3Details" where
  "migration_s3_details self source =
     \<lparr>s3d_config_helper = config_helper self, s3d_source = source,
      s3d_encryption_key_id = encryptionKeyID\<rparr>"

definition preflight_tasks ::
  "tool \<Rightarrow> resource \<Rightarrow> resource \<Rightarrow> global_config_values \<Rightarrow> task list" where
  "preflight_tasks self source destination gcv =
     (if connectionPreTest gcv \<and> \<not> destinationTablePreTest gcv
      then [FailIfResourceClusterDoesNotExistsTask (migration_destination self destination)]
      else []) @
     (if connectionPreTest gcv \<and> \<not> sourceTablePreTest gcv
      then [FailIfResourceClusterDoesNotExistsTask source] else []) @
     (if destinationTablePreTest gcv
      then (if destinationTableAutoCreate gcv
            then [FailIfResourceClusterDoesNotExistsTask (migration_destination self destination)]
            else [FailIfResourceDoesNotExistsTask (migration_destination self destination)])
      else []) @
     (if sourceTablePreTest gcv then [FailIfResourceDoesNotExistsTask source] else []) @
     (if destinationTableAutoCreate gcv
      then [CreateIfTargetDoesNotExistTask source (migration_destination self destination)]
      else [])"

definition pipeline_tasks ::
  "tool \<Rightarrow> resource \<Rightarrow> resource \<Rightarrow> global_config_values \<Rightarrow> task list" where
  "pipeline_tasks self source destination gcv =
     preflight_tasks self source destination gcv @
       [UnloadDataToS3Task source (migration_s3_details self source),
        CopyDataFromS3Task (migration_destination self destination)
          (migration_s3_details self source),
        CleanupS3StagingAreaTask (migration_s3_details self source)]"

definition pipeline_kinds :: "global_config_values \<Rightarrow> task_kind list" where
  "pipeline_kinds gcv =
     (if connectionPreTest gcv \<and> \<not> destinationTablePreTest gcv then [ClusterCheck] else []) @
     (if connectionPreTest gcv \<and> \<not> sourceTablePreTest gcv then [ClusterCheck] else []) @
     (if destinationTablePreTest gcv
      then (if destinationTableAutoCreate gcv then [ClusterCheck] else [ResourceCheck])
      else []) @
     (if sourceTablePreTest gcv then [ResourceCheck] else []) @
     (if destinationTableAutoCreate gcv then [Creation] else []) @
     [Unload, Copy, Cleanup]"

definition new_cluster :: "tool \<Rightarrow> nat \<Rightarrow> cluster_dict \<Rightarrow> cluster" where
  "new_cluster self k d =
     \<lparr>cluster_serial = clusters_created self + k, cluster_of_dict = d,
      cluster_region = tool_region self\<rparr>"

definition barrier_state :: "tool \<Rightarrow> tool" where
  "barrier_state self =
     self\<lparr>task_manager := \<lparr>tasks = [NoOperationTask, NoOperationTask], edges = []\<rparr>,
          barrier_after_all_cluster_pre_tests := 0,
          barrier_after_all_resource_pre_tests := 1\<rparr>"

definition initial_tool :: "ConfigHelper \<Rightarrow> region \<Rightarrow> global_config_values \<Rightarrow> tool" where
  "initial_tool ch region_name gcv =
     \<lparr>tool_region = region_name, s3_helper = \<lparr>s3_region = region_name\<rparr>, config_helper = ch,
      task_manager = TaskManager, barrier_after_all_cluster_pre_tests = 0,
      barrier_after_all_resource_pre_tests = 0, config_parameters = gcv,
      clusters_created = 0, run_calls = []\<rparr>"

subsection \<open>Supported migrations\<close>

text \<open>
  A migration is supported when the source is a table, schema or database resource and
  the destination is a database resource. The tables of a migration are the table
  itself, the tables that the schema lists, or the tables that the schemas of the
  database list, one after the other.
\<close>

definition listed_tables :: "env \<Rightarrow> resource \<Rightarrow> (string option \<times> string option) list" where
  "listed_tables e source =
     (if isinstance source TableResource_class then [table_name source]
      else if isinstance source SchemaResource_class
      then map (\<lambda>table. (get_schema source, Some table)) (list_tables e source)
      else if isinstance source DBResource_class
      then concat (map (\<lambda>schema. map (\<lambda>table. (Some schema, Some table))
                         (list_tables e (SchemaResource (get_cluster source) schema)))
                    (list_schemas e source))
      else [])"

definition supported :: "resource \<Rightarrow> resource \<Rightarrow> bool" where
  "supported source destination =
     ((isinstance source TableResource_class \<or> isinstance source SchemaResource_class \<or>
       isinstance source DBResource_class) \<and> isinstance destination DBResource_class)"

subsection \<open>Example inputs\<close>

text \<open>
  A configuration file with two cluster descriptions, a source table, a destination
  database, a choice of flags, collaborators that answer with these, and the tool as it
  is when the two barriers have been added.
\<close>

definition example_config :: config where
  "example_config =
     \<lparr>unloadSource = \<lparr>cd_explicit_ids = None, cd_endpoint = ''source.example''\<rparr>,
      copyTarget = \<lparr>cd_explicit_ids = Some True, cd_endpoint = ''target.example''\<rparr>\<rparr>"

definition example_cluster :: "nat \<Rightarrow> cluster_dict \<Rightarrow> cluster" where
  "example_cluster k d =
     \<lparr>cluster_serial = k, cluster_of_dict = d, cluster_region = Some ''eu-west-1''\<rparr>"

definition example_table :: resource where
  "example_table =
     TableResource (example_cluster 0 (unloadSource example_config)) (Some ''public'') ''orders''"

definition example_database :: resource where
  "example_database =
     \<lparr>res_classes = [DBResource_class],
      res_cluster = example_cluster 1 (copyTarget example_config),
      res_schema = None, res_table = None, res_explicit_ids = None\<rparr>"

definition example_gcv :: global_config_values where
  "example_gcv =
     \<lparr>connectionPreTest = True, destinationTablePreTest = False, sourceTablePreTest = True,
      destinationTableAutoCreate = True, tableName = None\<rparr>"

definition example_env :: "resource \<Rightarrow> resource \<Rightarrow> env" where
  "example_env source destination =
     \<lparr>get_json_config_as_dict = (\<lambda>h p. Inl (ExternalError ''no such bucket'')),
      open_json_load = (\<lambda>p. Inr example_config),
      get_source_resource_from_config_helper = (\<lambda>ch r. source),
      get_target_resource_from_config_helper = (\<lambda>ch r. destination),
      get_table_resource_from_merging_2_resources =
        (\<lambda>a b. b\<lparr>res_cluster := res_cluster a\<rparr>),
      list_schemas = (\<lambda>r. [''public'', ''sales'']),
      list_tables = (\<lambda>r. [''orders'', ''items''])\<rparr>"

definition example_helper :: ConfigHelper where
  "example_helper =
     \<lparr>ch_s3_helper = Some \<lparr>s3_region = Some ''eu-west-1''\<rparr>, ch_config = example_config\<rparr>"

definition example_tool :: tool where
  "example_tool = barrier_state (initial_tool example_helper (Some ''eu-west-1'') example_gcv)"

definition example_file :: string where
  "example_file = ''config.json''"

definition example_region :: region where
  "example_region = Some ''eu-west-1''"

definition example_other :: resource where
  "example_other =
     \<lparr>res_classes = [], res_cluster = example_cluster 1 (copyTarget example_config),
      res_schema = None, res_table = None, res_explicit_ids = None\<rparr>"


definition example_schema :: resource where
  "example_schema = SchemaResource (example_cluster 0 (unloadSource example_config)) ''public''"

definition connection_only :: global_config_values where
  "connection_only =
     \<lparr>connectionPreTest = True, destinationTablePreTest = False, sourceTablePreTest = False,
      destinationTableAutoCreate = False, tableName = None\<rparr>"




section \<open>Properties\<close>

subsection \<open>Insertion preserves well-formedness\<close>

lemma layered_acyclic:
  assumes "layered self"
  shows "acyclic (set (edges (task_manager self)))"
proof -
  have "set (edges (task_manager self)) \<subseteq> inv_image less_than (level self)"
    using assms by (auto simp: layered_def)
  moreover have "wf (inv_image less_than (level self))" by simp
  ultimately show ?thesis using wf_subset wf_acyclic by blast
qed

lemma tasks_inserted [simp]: "tasks (inserted tm t a b) = tasks tm @ [t]"
  by (simp add: inserted_def)

lemma edges_inserted [simp]:
  "edges (inserted tm t a b) =
     edges tm @ map (\<lambda>d. (d, length (tasks tm))) b @ map (\<lambda>s. (length (tasks tm), s)) a"
  by (simp add: inserted_def)

lemma added_fields [simp]:
  "tasks (task_manager (added self t a b)) = tasks (task_manager self) @ [t]"
  "edges (task_manager (added self t a b)) =
     edges (task_manager self) @ map (\<lambda>d. (d, length (tasks (task_manager self)))) b
       @ map (\<lambda>s. (length (tasks (task_manager self)), s)) a"
  "barrier_after_all_cluster_pre_tests (added self t a b) = barrier_after_all_cluster_pre_tests self"
  "barrier_after_all_resource_pre_tests (added self t a b) = barrier_after_all_resource_pre_tests self"
  "config_helper (added self t a b) = config_helper self"
  "tool_region (added self t a b) = tool_region self"
  "clusters_created (added self t a b) = clusters_created self"
  "run_calls (added self t a b) = run_calls self"
  by (simp_all add: added_def)

lemma level_inserted_old:
  assumes "h < length (tasks (task_manager self))"
  shows "level (added self t a b) h = level self h"
  using assms by (simp add: level_def added_def nth_append)

lemma level_inserted_new:
  assumes "barrier_after_all_cluster_pre_tests self < length (tasks (task_manager self))"
    and "barrier_after_all_resource_pre_tests self < length (tasks (task_manager self))"
  shows "level (added self t a b)
           (length (tasks (task_manager self))) = task_level t"
  using assms by (auto simp: level_def added_def)

lemma layered_inserted:
  assumes inv: "tool_inv self" and adm: "admissible self t a b"
  shows "layered (added self t a b)"
proof -
  let ?n = "length (tasks (task_manager self))"
  let ?self' = "added self t a b"
  have b: "barrier_after_all_cluster_pre_tests self < ?n"
          "barrier_after_all_resource_pre_tests self < ?n"
    using inv by (simp_all add: tool_inv_def Let_def)
  have old: "level ?self' h = level self h" if "h < ?n" for h
    using that by (rule level_inserted_old)
  have new: "level ?self' ?n = task_level t"
    using b by (rule level_inserted_new)
  have lay: "layered self" using inv by (simp add: tool_inv_def Let_def)
  show ?thesis
    unfolding layered_def
  proof (clarify)
    fix x y assume "(x, y) \<in> set (edges (task_manager ?self'))"
    then consider "(x, y) \<in> set (edges (task_manager self))"
      | "x \<in> set b" "y = ?n" | "x = ?n" "y \<in> set a"
      by (auto simp: added_def)
    then show "x < length (tasks (task_manager ?self')) \<and> y < length (tasks (task_manager ?self'))
        \<and> level ?self' x < level ?self' y"
    proof cases
      case 1
      then have "x < ?n \<and> y < ?n \<and> level self x < level self y"
        using lay by (auto simp: layered_def)
      then show ?thesis using old by (simp add: added_def)
    next
      case 2
      then have "x < ?n \<and> level self x < task_level t"
        using adm by (simp add: admissible_def Let_def)
      then show ?thesis using 2 old new by (simp add: added_def)
    next
      case 3
      then have "y < ?n \<and> task_level t < level self y"
        using adm by (simp add: admissible_def Let_def)
      then show ?thesis using 3 old new by (simp add: added_def)
    qed
  qed
qed

lemma predecessors_added:
  "predecessors (task_manager (added self t a b)) h =
     predecessors (task_manager self) h
       \<union> (if h = length (tasks (task_manager self)) then set b else {})
       \<union> (if h \<in> set a then {length (tasks (task_manager self))} else {})"
  by (auto simp: predecessors_def image_iff)

lemma successors_added:
  "successors (task_manager (added self t a b)) h =
     successors (task_manager self) h
       \<union> (if h = length (tasks (task_manager self)) then set a else {})
       \<union> (if h \<in> set b then {length (tasks (task_manager self))} else {})"
  by (auto simp: successors_def image_iff)

lemma layered_fresh:
  assumes "layered self" and "length (tasks (task_manager self)) \<le> h"
  shows "predecessors (task_manager self) h = {}" and "successors (task_manager self) h = {}"
  using assms by (auto simp: layered_def predecessors_def successors_def)

lemma wired_inserted_old:
  assumes "tool_inv self" and "admissible self t a b"
    and "h < length (tasks (task_manager self))"
  shows "wired (added self t a b) h"
proof -
  have w: "wired self h" using assms(1,3) by (simp add: tool_inv_def Let_def)
  have nb: "tasks (task_manager self) ! barrier_after_all_cluster_pre_tests self = NoOperationTask"
           "tasks (task_manager self) ! barrier_after_all_resource_pre_tests self = NoOperationTask"
    using assms(1) by (simp_all add: tool_inv_def Let_def)
  have a: "\<forall>s \<in> set a. s = barrier_after_all_cluster_pre_tests self
             \<or> s = barrier_after_all_resource_pre_tests self"
    using assms(2) by (simp add: admissible_def Let_def)
  have b: "\<forall>d \<in> set b. d = barrier_after_all_cluster_pre_tests self
             \<or> d = barrier_after_all_resource_pre_tests self
             \<or> is_unload (tasks (task_manager self) ! d) \<or> is_copy (tasks (task_manager self) ! d)"
    using assms(2) by (simp add: admissible_def Let_def)
  show ?thesis
  proof (cases "tasks (task_manager self) ! h")
    case NoOperationTask
    then show ?thesis using w assms(3) by (simp add: wired_def Let_def nth_append)
  next
    case (FailIfResourceClusterDoesNotExistsTask r)
    then have "h \<notin> set a" "h \<notin> set b" using a b nb by (auto simp: is_unload_def is_copy_def)
    then show ?thesis using w assms(3) FailIfResourceClusterDoesNotExistsTask
      by (simp add: wired_def Let_def nth_append predecessors_added successors_added)
  next
    case (FailIfResourceDoesNotExistsTask r)
    then have "h \<notin> set a" "h \<notin> set b" using a b nb by (auto simp: is_unload_def is_copy_def)
    then show ?thesis using w assms(3) FailIfResourceDoesNotExistsTask
      by (simp add: wired_def Let_def nth_append predecessors_added successors_added)
  next
    case (CreateIfTargetDoesNotExistTask r d)
    then have "h \<notin> set a" "h \<notin> set b" using a b nb by (auto simp: is_unload_def is_copy_def)
    then show ?thesis using w assms(3) CreateIfTargetDoesNotExistTask
      by (simp add: wired_def Let_def nth_append predecessors_added successors_added)
  next
    case (UnloadDataToS3Task r d)
    then have "h \<notin> set a" using a nb by auto
    then show ?thesis using w assms(3) UnloadDataToS3Task
      by (simp add: wired_def Let_def nth_append predecessors_added)
  next
    case (CopyDataFromS3Task r d)
    then have "h \<notin> set a" using a nb by auto
    then show ?thesis using w assms(3) CopyDataFromS3Task
      by (auto simp add: wired_def Let_def nth_append predecessors_added)
  next
    case (CleanupS3StagingAreaTask d)
    then have "h \<notin> set a" using a nb by auto
    then show ?thesis using w assms(3) CleanupS3StagingAreaTask
      by (auto simp add: wired_def Let_def nth_append predecessors_added)
  qed
qed

lemma wired_inserted_new:
  assumes "tool_inv self" and "admissible self t a b"
  shows "wired (added self t a b) (length (tasks (task_manager self)))"
proof -
  have lay: "layered self" using assms(1) by (simp add: tool_inv_def Let_def)
  have bs: "barrier_after_all_cluster_pre_tests self < length (tasks (task_manager self))"
           "barrier_after_all_resource_pre_tests self < length (tasks (task_manager self))"
    using assms(1) by (simp_all add: tool_inv_def Let_def)
  have na: "length (tasks (task_manager self)) \<notin> set a"
    and nb: "length (tasks (task_manager self)) \<notin> set b"
    using assms(2) by (auto simp: admissible_def Let_def)
  show ?thesis
    using assms(2) na nb bs layered_fresh [OF lay order_refl]
    by (cases t)
       (auto simp: wired_def admissible_def Let_def nth_append predecessors_added successors_added)
qed

lemma tool_inv_inserted:
  assumes inv: "tool_inv self" and adm: "admissible self t a b"
  shows "tool_inv (added self t a b)"
proof -
  let ?n = "length (tasks (task_manager self))"
  let ?self' = "added self t a b"
  have "wired ?self' h" if "h < Suc ?n" for h
  proof (cases "h = ?n")
    case True
    then show ?thesis using wired_inserted_new [OF inv adm] by simp
  next
    case False
    then have "h < ?n" using that by simp
    then show ?thesis using inv adm by (simp add: wired_inserted_old)
  qed
  moreover have "layered ?self'" using inv adm by (rule layered_inserted)
  ultimately show ?thesis
    using inv by (simp add: tool_inv_def added_def Let_def nth_append)
qed

lemma tm_add_task_inserted:
  assumes inv: "tool_inv self" and adm: "admissible self t a b"
  shows "tm_add_task self t a b =
           Inr (length (tasks (task_manager self)),
                added self t a b)"
proof -
  let ?self' = "added self t a b"
  have "acyclic (set (edges (task_manager ?self')))"
    using layered_inserted [OF inv adm] by (rule layered_acyclic)
  then have "acyclic (set (edges (inserted (task_manager self) t a b)))" by (simp add: added_def)
  moreover have "\<forall>h \<in> set (b @ a). h < length (tasks (task_manager self))"
    using adm by (auto simp: admissible_def Let_def)
  ultimately show ?thesis
    by (simp add: tm_add_task_def add_task_def added_def)
qed

lemma tool_inv_barriers:
  assumes "tool_inv self"
  shows "barrier_after_all_cluster_pre_tests self < length (tasks (task_manager self))"
    and "barrier_after_all_resource_pre_tests self < length (tasks (task_manager self))"
    and "barrier_after_all_cluster_pre_tests self \<noteq> barrier_after_all_resource_pre_tests self"
  using assms by (simp_all add: tool_inv_def Let_def)

lemma adm_cluster:
  assumes "tool_inv self" and "x = barrier_after_all_cluster_pre_tests self"
  shows "admissible self (FailIfResourceClusterDoesNotExistsTask r) [x] []"
  using tool_inv_barriers [OF assms(1)] assms(2) by (simp add: admissible_def level_def)

lemma adm_resource:
  assumes "tool_inv self" and "x = barrier_after_all_resource_pre_tests self"
    and "y = barrier_after_all_cluster_pre_tests self"
  shows "admissible self (FailIfResourceDoesNotExistsTask r) [x] [y]"
  using tool_inv_barriers [OF assms(1)] assms(2,3) by (auto simp add: admissible_def level_def)

lemma adm_create:
  assumes "tool_inv self" and "x = barrier_after_all_resource_pre_tests self"
    and "y = barrier_after_all_cluster_pre_tests self"
  shows "admissible self (CreateIfTargetDoesNotExistTask r d) [x] [y]"
  using tool_inv_barriers [OF assms(1)] assms(2,3) by (auto simp add: admissible_def level_def)

lemma adm_unload:
  assumes "tool_inv self" and "x = barrier_after_all_resource_pre_tests self"
  shows "admissible self (UnloadDataToS3Task r d) [] [x]"
  using tool_inv_barriers [OF assms(1)] assms(2) by (auto simp add: admissible_def level_def)

lemma adm_copy:
  assumes "tool_inv self" and "u = length (tasks (task_manager self))"
  shows "admissible (added self (UnloadDataToS3Task r d) a b) (CopyDataFromS3Task r' d') [] [u]"
  using tool_inv_barriers [OF assms(1)] assms(2)
  by (auto simp add: admissible_def level_def is_unload_def)

lemma adm_cleanup:
  assumes "tool_inv self" and "c = Suc (length (tasks (task_manager self)))"
  shows "admissible (added (added self t a b) (CopyDataFromS3Task r d) a' b')
           (CleanupS3StagingAreaTask d') [] [c]"
  using tool_inv_barriers [OF assms(1)] assms(2)
  by (auto simp add: admissible_def level_def is_copy_def nth_append)

lemmas adm_rules = adm_cluster adm_resource adm_create adm_unload adm_copy adm_cleanup

lemma add_table_migration_result:
  assumes inv: "tool_inv self"
  shows "add_table_migration self source destination gcv =
           Inr (table_migration_result self source destination gcv)"
  using inv
  by (cases "connectionPreTest gcv"; cases "destinationTablePreTest gcv";
      cases "sourceTablePreTest gcv"; cases "destinationTableAutoCreate gcv")
     (simp_all add: add_table_migration_def table_migration_result_def Let_def bind_outcome_def
        tm_add_task_inserted tool_inv_inserted adm_rules)

lemma tool_inv_table_migration_result:
  assumes inv: "tool_inv self"
  shows "tool_inv (table_migration_result self source destination gcv)"
  using inv
  by (simp add: table_migration_result_def Let_def tool_inv_inserted adm_rules)

subsection \<open>Table, schema and database migrations\<close>

lemma table_migration_tasks:
  "tasks (task_manager (table_migration_result self source destination gcv)) =
     tasks (task_manager self) @ preflight_tasks self source destination gcv @
       [UnloadDataToS3Task source (migration_s3_details self source),
        CopyDataFromS3Task (migration_destination self destination)
          (migration_s3_details self source),
        CleanupS3StagingAreaTask (migration_s3_details self source)]"
  by (simp add: table_migration_result_def preflight_tasks_def migration_destination_def
        migration_s3_details_def Let_def)

lemma table_migration_fields [simp]:
  "barrier_after_all_cluster_pre_tests (table_migration_result self source destination gcv)
     = barrier_after_all_cluster_pre_tests self"
  "barrier_after_all_resource_pre_tests (table_migration_result self source destination gcv)
     = barrier_after_all_resource_pre_tests self"
  "config_helper (table_migration_result self source destination gcv) = config_helper self"
  "tool_region (table_migration_result self source destination gcv) = tool_region self"
  "clusters_created (table_migration_result self source destination gcv) = clusters_created self"
  "run_calls (table_migration_result self source destination gcv) = run_calls self"
  by (simp_all add: table_migration_result_def Let_def)

lemma tool_inv_layered: "tool_inv self \<Longrightarrow> layered self"
  by (simp add: tool_inv_def Let_def)

lemma tool_inv_wired:
  "tool_inv self \<Longrightarrow> h < length (tasks (task_manager self)) \<Longrightarrow> wired self h"
  by (simp add: tool_inv_def Let_def)

lemma table_migration_unload_wired:
  fixes self source destination gcv
  assumes inv: "tool_inv self"
  defines "self' \<equiv> table_migration_result self source destination gcv"
  defines "u \<equiv> length (tasks (task_manager self')) - 3"
  shows "predecessors (task_manager self') u = {barrier_after_all_resource_pre_tests self}"
    and "predecessors (task_manager self') (Suc u) = {u}"
    and "predecessors (task_manager self') (Suc (Suc u)) = {Suc u}"
proof -
  have inv': "tool_inv self'"
    unfolding self'_def using inv by (rule tool_inv_table_migration_result)
  have len: "length (tasks (task_manager self')) = Suc (Suc (Suc u))"
    unfolding u_def self'_def by (simp add: table_migration_tasks)
  have ts: "tasks (task_manager self') ! u = UnloadDataToS3Task source (migration_s3_details self source)"
     "tasks (task_manager self') ! Suc u = CopyDataFromS3Task (migration_destination self destination)
          (migration_s3_details self source)"
     "tasks (task_manager self') ! Suc (Suc u) = CleanupS3StagingAreaTask (migration_s3_details self source)"
    unfolding u_def self'_def by (simp_all add: table_migration_tasks nth_append)
  have "wired self' u" "wired self' (Suc u)" "wired self' (Suc (Suc u))"
    using inv' len by (simp_all add: tool_inv_wired)
  then show "predecessors (task_manager self') u = {barrier_after_all_resource_pre_tests self}"
    and "predecessors (task_manager self') (Suc u) = {u}"
    and "predecessors (task_manager self') (Suc (Suc u)) = {Suc u}"
    using ts by (simp_all add: wired_def Let_def self'_def)
qed

lemma unload_sources_append [simp]:
  "unload_sources (xs @ ys) = unload_sources xs @ unload_sources ys"
  by (simp add: unload_sources_def)

lemma copy_destinations_append [simp]:
  "copy_destinations (xs @ ys) = copy_destinations xs @ copy_destinations ys"
  by (simp add: copy_destinations_def)

lemma pipeline_tasks_kinds:
  "map kind_of (pipeline_tasks self source destination gcv) = pipeline_kinds gcv"
  by (simp add: pipeline_tasks_def preflight_tasks_def pipeline_kinds_def)

lemma pipeline_tasks_unload:
  "unload_sources (pipeline_tasks self source destination gcv) = [source]"
  by (simp add: pipeline_tasks_def preflight_tasks_def unload_sources_def)

lemma pipeline_tasks_copy:
  "copy_destinations (pipeline_tasks self source destination gcv) =
     [migration_destination self destination]"
  by (simp add: pipeline_tasks_def preflight_tasks_def copy_destinations_def)

lemma table_migration_pipeline:
  "tasks (task_manager (table_migration_result self source destination gcv)) =
     tasks (task_manager self) @ pipeline_tasks self source destination gcv"
  by (simp add: table_migration_tasks pipeline_tasks_def)

lemma level_clusters_created [simp]:
  "level (self\<lparr>clusters_created := k\<rparr>) h = level self h"
  by (simp add: level_def)

lemma layered_clusters_created [simp]:
  "layered (self\<lparr>clusters_created := k\<rparr>) = layered self"
  by (simp add: layered_def)

lemma wired_clusters_created [simp]:
  "wired (self\<lparr>clusters_created := k\<rparr>) h = wired self h"
  by (simp add: wired_def)

lemma tool_inv_clusters_created [simp]:
  "tool_inv (self\<lparr>clusters_created := k\<rparr>) = tool_inv self"
  by (simp add: tool_inv_def)

lemma migration_destination_cluster [simp]:
  "res_cluster (migration_destination self r) = res_cluster r"
  by (simp add: migration_destination_def set_explicit_ids_def)

lemma migration_destination_clusters_created [simp]:
  "migration_destination (self\<lparr>clusters_created := k\<rparr>) r = migration_destination self r"
  by (simp add: migration_destination_def)

lemma new_cluster_table_migration [simp]:
  "new_cluster (table_migration_result self source destination gcv) k d = new_cluster self k d"
  by (simp add: new_cluster_def)

lemma new_cluster_shift [simp]:
  "new_cluster (self\<lparr>clusters_created := Suc (Suc (clusters_created self))\<rparr>) k d =
     new_cluster self (Suc (Suc k)) d"
  by (simp add: new_cluster_def)

lemma add_schema_tables_ok:
  assumes "tool_inv self"
  shows "\<exists>self' new.
           add_schema_tables e self source destination gcv tables = Inr self' \<and>
           tool_inv self' \<and>
           barrier_after_all_cluster_pre_tests self' = barrier_after_all_cluster_pre_tests self \<and>
           barrier_after_all_resource_pre_tests self' = barrier_after_all_resource_pre_tests self \<and>
           config_helper self' = config_helper self \<and>
           tool_region self' = tool_region self \<and>
           run_calls self' = run_calls self \<and>
           clusters_created self' = clusters_created self + 2 * length tables \<and>
           tasks (task_manager self') = tasks (task_manager self) @ new \<and>
           map kind_of new = concat (replicate (length tables) (pipeline_kinds gcv)) \<and>
           unload_sources new =
             map (\<lambda>(k, table). TableResource
                    (new_cluster self (2 * k) (unloadSource (ch_config (config_helper self))))
                    (get_schema source) table)
               (enumerate 0 tables) \<and>
           map res_cluster (copy_destinations new) =
             map (\<lambda>k. new_cluster self (2 * k + 1) (copyTarget (ch_config (config_helper self))))
               [0..<length tables]"
  using assms
proof (induction tables arbitrary: self)
  case Nil
  then show ?case by (simp add: unload_sources_def copy_destinations_def)
next
  case (Cons table tables)
  let ?c1 = "new_cluster self 0 (unloadSource (ch_config (config_helper self)))"
  let ?c2 = "new_cluster self 1 (copyTarget (ch_config (config_helper self)))"
  let ?self2 = "self\<lparr>clusters_created := Suc (Suc (clusters_created self))\<rparr>"
  let ?src = "TableResource ?c1 (get_schema source) table"
  let ?dst = "set_cluster (get_table_resource_from_merging_2_resources e destination ?src) ?c2"
  let ?mid = "table_migration_result ?self2 ?src ?dst gcv"
  have inv2: "tool_inv ?self2" using Cons.prems by simp
  have step: "add_table_migration ?self2 ?src ?dst gcv = Inr ?mid"
    using inv2 by (rule add_table_migration_result)
  have invm: "tool_inv ?mid" using inv2 by (rule tool_inv_table_migration_result)
  from Cons.IH [OF invm] obtain self' new where
    r: "add_schema_tables e ?mid source destination gcv tables = Inr self'"
    and i: "tool_inv self'"
    and f: "barrier_after_all_cluster_pre_tests self' = barrier_after_all_cluster_pre_tests ?mid"
       "barrier_after_all_resource_pre_tests self' = barrier_after_all_resource_pre_tests ?mid"
       "config_helper self' = config_helper ?mid" "tool_region self' = tool_region ?mid"
       "run_calls self' = run_calls ?mid"
       "clusters_created self' = clusters_created ?mid + 2 * length tables"
    and t: "tasks (task_manager self') = tasks (task_manager ?mid) @ new"
       "map kind_of new = concat (replicate (length tables) (pipeline_kinds gcv))"
    and u: "unload_sources new =
             map (\<lambda>(k, table). TableResource
                    (new_cluster ?mid (2 * k) (unloadSource (ch_config (config_helper ?mid))))
                    (get_schema source) table)
               (enumerate 0 tables)"
    and c: "map res_cluster (copy_destinations new) =
             map (\<lambda>k. new_cluster ?mid (2 * k + 1) (copyTarget (ch_config (config_helper ?mid))))
               [0..<length tables]"
    by blast
  have run: "add_schema_tables e self source destination gcv (table # tables) = Inr self'"
    using step r
    by (simp add: get_cluster_from_cluster_dict_def bind_outcome_def new_cluster_def)
  let ?new = "pipeline_tasks ?self2 ?src ?dst gcv @ new"
  have tasks': "tasks (task_manager self') = tasks (task_manager self) @ ?new"
    using t(1) by (simp add: table_migration_pipeline)
  have len: "map kind_of ?new = concat (replicate (length (table # tables)) (pipeline_kinds gcv))"
    using t(2) by (simp add: pipeline_tasks_kinds)
  have us: "unload_sources ?new =
             map (\<lambda>(k, table). TableResource
                    (new_cluster self (2 * k) (unloadSource (ch_config (config_helper self))))
                    (get_schema source) table)
               (enumerate 0 (table # tables))"
    using u by (simp add: pipeline_tasks_unload enumerate_Suc_eq split_def)
  have cs: "map res_cluster (copy_destinations ?new) =
             map (\<lambda>k. new_cluster self (2 * k + 1) (copyTarget (ch_config (config_helper self))))
               [0..<length (table # tables)]"
    using c by (simp add: pipeline_tasks_copy set_cluster_def upt_conv_Cons
                  map_Suc_upt [symmetric] del: upt_Suc)
  show ?case
    using run i f tasks' len us cs by (intro exI [of _ self'] exI [of _ ?new]) simp
qed

lemma map_enumerate_snd: "map (\<lambda>(k, x). g x) (enumerate n xs) = map g xs"
  by (induction xs arbitrary: n) simp_all

lemma add_schema_migration_ok:
  assumes "tool_inv self"
  shows "\<exists>self' new.
           add_schema_migration e self source destination gcv = Inr self' \<and>
           tool_inv self' \<and>
           barrier_after_all_cluster_pre_tests self' = barrier_after_all_cluster_pre_tests self \<and>
           barrier_after_all_resource_pre_tests self' = barrier_after_all_resource_pre_tests self \<and>
           config_helper self' = config_helper self \<and>
           tool_region self' = tool_region self \<and>
           run_calls self' = run_calls self \<and>
           tasks (task_manager self') = tasks (task_manager self) @ new \<and>
           map kind_of new =
             concat (replicate (length (list_tables e source)) (pipeline_kinds gcv)) \<and>
           map table_name (unload_sources new) =
             map (\<lambda>table. (get_schema source, Some table)) (list_tables e source)"
proof -
  from add_schema_tables_ok [OF assms, of e source destination gcv "list_tables e source"]
  obtain self' new where
    r: "add_schema_tables e self source destination gcv (list_tables e source) = Inr self'"
    and i: "tool_inv self'"
    and f: "barrier_after_all_cluster_pre_tests self' = barrier_after_all_cluster_pre_tests self"
       "barrier_after_all_resource_pre_tests self' = barrier_after_all_resource_pre_tests self"
       "config_helper self' = config_helper self" "tool_region self' = tool_region self"
       "run_calls self' = run_calls self"
    and t: "tasks (task_manager self') = tasks (task_manager self) @ new"
       "map kind_of new = concat (replicate (length (list_tables e source)) (pipeline_kinds gcv))"
    and u: "unload_sources new =
             map (\<lambda>(k, table). TableResource
                    (new_cluster self (2 * k) (unloadSource (ch_config (config_helper self))))
                    (get_schema source) table)
               (enumerate 0 (list_tables e source))"
    and c: "map res_cluster (copy_destinations new) =
             map (\<lambda>k. new_cluster self (2 * k + 1) (copyTarget (ch_config (config_helper self))))
               [0..<length (list_tables e source)]"
    by blast
  have "map table_name (unload_sources new) =
          map (\<lambda>(k, table). (get_schema source, Some table)) (enumerate 0 (list_tables e source))"
    unfolding u by (simp add: table_name_def TableResource_def split_def)
  then have names: "map table_name (unload_sources new) =
          map (\<lambda>table. (get_schema source, Some table)) (list_tables e source)"
    by (simp only: map_enumerate_snd)
  show ?thesis
    using r i f t names
    by (intro exI [of _ self'] exI [of _ new]) (simp add: add_schema_migration_def)
qed

lemma add_database_schemas_ok:
  assumes "tool_inv self"
  shows "\<exists>self' new.
           add_database_schemas e self source destination gcv schemas = Inr self' \<and>
           tool_inv self' \<and>
           barrier_after_all_cluster_pre_tests self' = barrier_after_all_cluster_pre_tests self \<and>
           barrier_after_all_resource_pre_tests self' = barrier_after_all_resource_pre_tests self \<and>
           config_helper self' = config_helper self \<and>
           tool_region self' = tool_region self \<and>
           run_calls self' = run_calls self \<and>
           tasks (task_manager self') = tasks (task_manager self) @ new \<and>
           map table_name (unload_sources new) =
             concat (map (\<lambda>schema. map (\<lambda>table. (Some schema, Some table))
                            (list_tables e (SchemaResource (get_cluster source) schema)))
                       schemas) \<and>
           map kind_of new =
             concat (replicate (length (unload_sources new)) (pipeline_kinds gcv))"
  using assms
proof (induction schemas arbitrary: self)
  case Nil
  then show ?case by (simp add: unload_sources_def copy_destinations_def)
next
  case (Cons schema schemas)
  let ?sch = "SchemaResource (get_cluster source) schema"
  from add_schema_migration_ok [OF Cons.prems, of e ?sch destination gcv]
  obtain mid new1 where
    r1: "add_schema_migration e self ?sch destination gcv = Inr mid"
    and i1: "tool_inv mid"
    and f1: "barrier_after_all_cluster_pre_tests mid = barrier_after_all_cluster_pre_tests self"
       "barrier_after_all_resource_pre_tests mid = barrier_after_all_resource_pre_tests self"
       "config_helper mid = config_helper self" "tool_region mid = tool_region self"
       "run_calls mid = run_calls self"
    and t1: "tasks (task_manager mid) = tasks (task_manager self) @ new1"
       "map kind_of new1 = concat (replicate (length (list_tables e ?sch)) (pipeline_kinds gcv))"
    and u1: "map table_name (unload_sources new1) =
             map (\<lambda>table. (get_schema ?sch, Some table)) (list_tables e ?sch)"
    by blast
  from Cons.IH [OF i1]
  obtain self' new2 where
    r2: "add_database_schemas e mid source destination gcv schemas = Inr self'"
    and i2: "tool_inv self'"
    and f2: "barrier_after_all_cluster_pre_tests self' = barrier_after_all_cluster_pre_tests mid"
       "barrier_after_all_resource_pre_tests self' = barrier_after_all_resource_pre_tests mid"
       "config_helper self' = config_helper mid" "tool_region self' = tool_region mid"
       "run_calls self' = run_calls mid"
    and t2: "tasks (task_manager self') = tasks (task_manager mid) @ new2"
    and u2: "map table_name (unload_sources new2) =
             concat (map (\<lambda>schema. map (\<lambda>table. (Some schema, Some table))
                            (list_tables e (SchemaResource (get_cluster source) schema)))
                       schemas)"
    and l2: "map kind_of new2 =
               concat (replicate (length (unload_sources new2)) (pipeline_kinds gcv))"
    by blast
  have run: "add_database_schemas e self source destination gcv (schema # schemas) = Inr self'"
    using r1 r2 by (simp add: bind_outcome_def)
  have lu1: "length (unload_sources new1) = length (list_tables e ?sch)"
    using arg_cong [OF u1, of length] by simp
  have names: "map table_name (unload_sources (new1 @ new2)) =
             concat (map (\<lambda>schema. map (\<lambda>table. (Some schema, Some table))
                            (list_tables e (SchemaResource (get_cluster source) schema)))
                       (schema # schemas))"
    using u1 u2 by (simp add: get_schema_def SchemaResource_def)
  have len: "map kind_of (new1 @ new2) =
               concat (replicate (length (unload_sources (new1 @ new2))) (pipeline_kinds gcv))"
    using t1(2) l2 lu1 by (simp add: replicate_add)
  show ?case
    using run i2 f1 f2 t1 t2 names len
    by (intro exI [of _ self'] exI [of _ "new1 @ new2"]) simp
qed

lemma build_barriers_result: "build_barriers self = Inr (barrier_state self)"
  by (simp add: build_barriers_def tm_add_task_def add_task_def TaskManager_def inserted_def
        bind_outcome_def barrier_state_def acyclic_def)

lemma tool_inv_barrier_state: "tool_inv (barrier_state self)"
  by (auto simp: tool_inv_def barrier_state_def layered_def wired_def less_Suc_eq)

lemma barrier_state_fields [simp]:
  "tasks (task_manager (barrier_state self)) = [NoOperationTask, NoOperationTask]"
  "edges (task_manager (barrier_state self)) = []"
  "barrier_after_all_cluster_pre_tests (barrier_state self) = 0"
  "barrier_after_all_resource_pre_tests (barrier_state self) = 1"
  "config_helper (barrier_state self) = config_helper self"
  "tool_region (barrier_state self) = tool_region self"
  "run_calls (barrier_state self) = run_calls self"
  "clusters_created (barrier_state self) = clusters_created self"
  by (simp_all add: barrier_state_def)

lemma dispatch_unsupported:
  assumes "\<not> supported source destination"
  shows "dispatch e self source destination gcv = Inl (NotImplementedError, self)"
  using assms by (auto simp: dispatch_def supported_def)

lemma dispatch_supported:
  assumes inv: "tool_inv self" and sup: "supported source destination"
  shows "\<exists>self' new.
           dispatch e self source destination gcv = Inr self' \<and>
           tool_inv self' \<and>
           barrier_after_all_cluster_pre_tests self' = barrier_after_all_cluster_pre_tests self \<and>
           barrier_after_all_resource_pre_tests self' = barrier_after_all_resource_pre_tests self \<and>
           config_helper self' = config_helper self \<and>
           tool_region self' = tool_region self \<and>
           run_calls self' = run_calls self \<and>
           tasks (task_manager self') = tasks (task_manager self) @ new \<and>
           map table_name (unload_sources new) = listed_tables e source \<and>
           map kind_of new =
             concat (replicate (length (listed_tables e source)) (pipeline_kinds gcv))"
proof -
  have dst: "isinstance destination DBResource_class" using sup by (simp add: supported_def)
  consider (table) "isinstance source TableResource_class"
    | (schema) "\<not> isinstance source TableResource_class" "isinstance source SchemaResource_class"
    | (db) "\<not> isinstance source TableResource_class" "\<not> isinstance source SchemaResource_class"
        "isinstance source DBResource_class"
    using sup by (auto simp: supported_def)
  then show ?thesis
  proof cases
    case table
    obtain d where
      d: "dispatch e self source destination gcv = add_table_migration self source d gcv"
      using table dst by (simp add: dispatch_def Let_def)
    let ?self' = "table_migration_result self source d gcv"
    let ?new = "pipeline_tasks self source d gcv"
    have "dispatch e self source destination gcv = Inr ?self'"
      using d add_table_migration_result [OF inv] by simp
    moreover have "tool_inv ?self'" using inv by (rule tool_inv_table_migration_result)
    moreover have "tasks (task_manager ?self') = tasks (task_manager self) @ ?new"
      by (rule table_migration_pipeline)
    moreover have "map table_name (unload_sources ?new) = listed_tables e source"
      using table by (simp add: pipeline_tasks_unload listed_tables_def)
    moreover have "map kind_of ?new =
        concat (replicate (length (listed_tables e source)) (pipeline_kinds gcv))"
      using table by (simp add: pipeline_tasks_kinds listed_tables_def)
    ultimately show ?thesis
      by (intro exI [of _ ?self'] exI [of _ ?new]) simp
  next
    case schema
    have d: "dispatch e self source destination gcv =
               add_schema_migration e self source destination gcv"
      using schema dst by (simp add: dispatch_def)
    have l: "listed_tables e source =
               map (\<lambda>table. (get_schema source, Some table)) (list_tables e source)"
      using schema by (simp add: listed_tables_def)
    show ?thesis
      using add_schema_migration_ok [OF inv, of e source destination gcv]
      unfolding d l by (elim exE conjE, intro exI conjI) simp_all
  next
    case db
    have d: "dispatch e self source destination gcv =
               add_database_schemas e self source destination gcv (list_schemas e source)"
      using db dst by (simp add: dispatch_def add_database_migration_def)
    have l: "listed_tables e source =
               concat (map (\<lambda>schema. map (\<lambda>table. (Some schema, Some table))
                         (list_tables e (SchemaResource (get_cluster source) schema)))
                    (list_schemas e source))"
      using db by (simp add: listed_tables_def)
    from add_database_schemas_ok [OF inv, of e source destination gcv "list_schemas e source"]
    obtain self' new where
      r: "add_database_schemas e self source destination gcv (list_schemas e source) = Inr self'"
      and i: "tool_inv self'"
      and f: "barrier_after_all_cluster_pre_tests self' = barrier_after_all_cluster_pre_tests self"
       "barrier_after_all_resource_pre_tests self' = barrier_after_all_resource_pre_tests self"
       "config_helper self' = config_helper self" "tool_region self' = tool_region self"
       "run_calls self' = run_calls self"
      and t: "tasks (task_manager self') = tasks (task_manager self) @ new"
      and u: "map table_name (unload_sources new) =
             concat (map (\<lambda>schema. map (\<lambda>table. (Some schema, Some table))
                            (list_tables e (SchemaResource (get_cluster source) schema)))
                       (list_schemas e source))"
      and n: "map kind_of new =
               concat (replicate (length (unload_sources new)) (pipeline_kinds gcv))"
      by blast
    have lu: "length (unload_sources new) = length (listed_tables e source)"
      using arg_cong [OF u, of length] unfolding l by simp
    show ?thesis
      using r i f t u n lu unfolding d l [symmetric]
      by (intro exI [of _ self'] exI [of _ new]) simp
  qed
qed

lemma init_load_error:
  assumes "ConfigHelper_init e config_file (Some \<lparr>s3_region = region_name\<rparr>) = Inl err"
  shows "UnloadCopyTool_init e config_file region_name gcv = Inl (err, None)"
  using assms by (simp add: UnloadCopyTool_init_def)

lemma init_loaded:
  assumes "ConfigHelper_init e config_file (Some \<lparr>s3_region = region_name\<rparr>) = Inr ch"
  shows "UnloadCopyTool_init e config_file region_name gcv =
           (case dispatch e (barrier_state (initial_tool ch region_name gcv))
                   (get_source_resource_from_config_helper e ch region_name)
                   (get_target_resource_from_config_helper e ch region_name) gcv of
              Inl (err, self) \<Rightarrow> Inl (err, Some self)
            | Inr self \<Rightarrow> Inr (run self 4))"
  using assms
  by (simp add: UnloadCopyTool_init_def Let_def build_barriers_result bind_outcome_def
        initial_tool_def)

lemma predecessors_edge: "a \<in> predecessors tm h \<longleftrightarrow> (a, h) \<in> set (edges tm)"
  by (force simp: predecessors_def)

lemma successors_edge: "b \<in> successors tm h \<longleftrightarrow> (h, b) \<in> set (edges tm)"
  by (force simp: successors_def)

subsection \<open>The transfer chain of a table migration\<close>

text \<open>
  Claim C1. From a well-formed tool, \<open>add_table_migration\<close> returns, and the last three
  tasks it has added are the unload task of the source, the copy task of the destination
  and the cleanup task, in this order. The only predecessor of the unload task is the
  barrier after all resource pre-tests, the only predecessor of the copy task is the
  unload task, and the only predecessor of the cleanup task is the copy task, so that
  the unload task precedes the cleanup task in the dependency order.
\<close>

theorem transfer_chain:
  assumes "tool_inv self"
  shows "\<exists>self' u.
           add_table_migration self source destination gcv = Inr self' \<and>
           length (tasks (task_manager self)) \<le> u \<and>
           length (tasks (task_manager self')) = u + 3 \<and>
           tasks (task_manager self') ! u =
             UnloadDataToS3Task source (migration_s3_details self source) \<and>
           predecessors (task_manager self') u = {barrier_after_all_resource_pre_tests self} \<and>
           tasks (task_manager self') ! (u + 1) =
             CopyDataFromS3Task (migration_destination self destination)
               (migration_s3_details self source) \<and>
           predecessors (task_manager self') (u + 1) = {u} \<and>
           tasks (task_manager self') ! (u + 2) =
             CleanupS3StagingAreaTask (migration_s3_details self source) \<and>
           predecessors (task_manager self') (u + 2) = {u + 1} \<and>
           (u, u + 2) \<in> (set (edges (task_manager self')))\<^sup>+"
proof -
  let ?self' = "table_migration_result self source destination gcv"
  let ?pre = "preflight_tasks self source destination gcv"
  let ?u = "length (tasks (task_manager self)) + length ?pre"
  have r: "add_table_migration self source destination gcv = Inr ?self'"
    using assms by (rule add_table_migration_result)
  have ts: "tasks (task_manager ?self') =
      (tasks (task_manager self) @ ?pre) @
       [UnloadDataToS3Task source (migration_s3_details self source),
        CopyDataFromS3Task (migration_destination self destination)
          (migration_s3_details self source),
        CleanupS3StagingAreaTask (migration_s3_details self source)]"
    by (simp add: table_migration_tasks)
  have len: "length (tasks (task_manager ?self')) = ?u + 3"
    unfolding ts by simp
  then have u: "?u = length (tasks (task_manager ?self')) - 3" by simp
  have nth: "tasks (task_manager ?self') ! ?u =
               UnloadDataToS3Task source (migration_s3_details self source)"
      "tasks (task_manager ?self') ! (?u + 1) =
         CopyDataFromS3Task (migration_destination self destination)
           (migration_s3_details self source)"
      "tasks (task_manager ?self') ! (?u + 2) =
         CleanupS3StagingAreaTask (migration_s3_details self source)"
    unfolding ts by (simp_all add: nth_append)
  have p: "predecessors (task_manager ?self') ?u = {barrier_after_all_resource_pre_tests self}"
      "predecessors (task_manager ?self') (?u + 1) = {?u}"
      "predecessors (task_manager ?self') (?u + 2) = {?u + 1}"
    using table_migration_unload_wired [OF assms, of source destination gcv]
    unfolding u [symmetric] by simp_all
  have "(?u, ?u + 1) \<in> set (edges (task_manager ?self'))"
       "(?u + 1, ?u + 2) \<in> set (edges (task_manager ?self'))"
    using p(2,3) predecessors_edge by blast+
  then have "(?u, ?u + 2) \<in> (set (edges (task_manager ?self')))\<^sup>+"
    by (meson trancl.r_into_trancl trancl_trans)
  then show ?thesis
    using r len nth p by (intro exI [of _ ?self'] exI [of _ ?u]) simp
qed

lemma tool_inv_example: "tool_inv example_tool"
  by (simp add: example_tool_def tool_inv_barrier_state)

text \<open>
  The tool with its two barriers is well-formed, and a table migration added to it ends
  in the chain of the three transfer tasks behind the second barrier (handle 1).
\<close>

theorem transfer_chain_witness:
  "tool_inv example_tool \<and>
   (\<exists>self' u.
      add_table_migration example_tool example_table example_database example_gcv = Inr self' \<and>
      length (tasks (task_manager example_tool)) \<le> u \<and>
      length (tasks (task_manager self')) = u + 3 \<and>
      tasks (task_manager self') ! u =
        UnloadDataToS3Task example_table (migration_s3_details example_tool example_table) \<and>
      predecessors (task_manager self') u = {1} \<and>
      predecessors (task_manager self') (u + 1) = {u} \<and>
      predecessors (task_manager self') (u + 2) = {u + 1})"
proof -
  have h: "tool_inv example_tool"
    by (simp add: example_tool_def tool_inv_barrier_state)
  have b: "barrier_after_all_resource_pre_tests example_tool = 1"
    by (simp add: example_tool_def)
  show ?thesis
    using h transfer_chain [OF h, of example_table example_database example_gcv]
    unfolding b by blast
qed

subsection \<open>What well-formedness says about each kind of task\<close>

lemma kind_of_cases:
  "kind_of t = ClusterCheck \<Longrightarrow> \<exists>r. t = FailIfResourceClusterDoesNotExistsTask r"
  "kind_of t = ResourceCheck \<Longrightarrow> \<exists>r. t = FailIfResourceDoesNotExistsTask r"
  "kind_of t = Creation \<Longrightarrow> \<exists>r d. t = CreateIfTargetDoesNotExistTask r d"
  "kind_of t = Unload \<Longrightarrow> \<exists>r d. t = UnloadDataToS3Task r d"
  "kind_of t = Copy \<Longrightarrow> \<exists>r d. t = CopyDataFromS3Task r d"
  "kind_of t = Cleanup \<Longrightarrow> \<exists>d. t = CleanupS3StagingAreaTask d"
  "kind_of t = Barrier \<Longrightarrow> t = NoOperationTask"
  by (cases t; simp)+

lemma is_unload_kind: "is_unload t \<longleftrightarrow> kind_of t = Unload"
  by (cases t) (simp_all add: is_unload_def)

lemma is_copy_kind: "is_copy t \<longleftrightarrow> kind_of t = Copy"
  by (cases t) (simp_all add: is_copy_def)

lemma wired_cluster_check:
  assumes "tool_inv self" and "h < length (tasks (task_manager self))"
    and "kind_of (tasks (task_manager self) ! h) = ClusterCheck"
  shows "predecessors (task_manager self) h = {}"
    and "successors (task_manager self) h = {barrier_after_all_cluster_pre_tests self}"
proof -
  have w: "wired self h" using assms(1,2) by (rule tool_inv_wired)
  obtain r where "tasks (task_manager self) ! h = FailIfResourceClusterDoesNotExistsTask r"
    using kind_of_cases(1) [OF assms(3)] by blast
  then show "predecessors (task_manager self) h = {}"
    and "successors (task_manager self) h = {barrier_after_all_cluster_pre_tests self}"
    using w by (simp_all add: wired_def Let_def)
qed

lemma wired_between_barriers:
  assumes "tool_inv self" and "h < length (tasks (task_manager self))"
    and "kind_of (tasks (task_manager self) ! h) = ResourceCheck
         \<or> kind_of (tasks (task_manager self) ! h) = Creation"
  shows "predecessors (task_manager self) h = {barrier_after_all_cluster_pre_tests self}"
    and "successors (task_manager self) h = {barrier_after_all_resource_pre_tests self}"
proof -
  have w: "wired self h" using assms(1,2) by (rule tool_inv_wired)
  consider r where "tasks (task_manager self) ! h = FailIfResourceDoesNotExistsTask r"
    | r d where "tasks (task_manager self) ! h = CreateIfTargetDoesNotExistTask r d"
    using assms(3) kind_of_cases(2,3) by blast
  then have "predecessors (task_manager self) h = {barrier_after_all_cluster_pre_tests self} \<and>
             successors (task_manager self) h = {barrier_after_all_resource_pre_tests self}"
    using w by cases (simp_all add: wired_def Let_def)
  then show "predecessors (task_manager self) h = {barrier_after_all_cluster_pre_tests self}"
    and "successors (task_manager self) h = {barrier_after_all_resource_pre_tests self}"
    by simp_all
qed

lemma wired_unload:
  assumes "tool_inv self" and "h < length (tasks (task_manager self))"
    and "kind_of (tasks (task_manager self) ! h) = Unload"
  shows "predecessors (task_manager self) h = {barrier_after_all_resource_pre_tests self}"
proof -
  have w: "wired self h" using assms(1,2) by (rule tool_inv_wired)
  obtain r d where "tasks (task_manager self) ! h = UnloadDataToS3Task r d"
    using kind_of_cases(4) [OF assms(3)] by blast
  then show ?thesis using w by (simp add: wired_def Let_def)
qed

lemma wired_copy:
  assumes "tool_inv self" and "h < length (tasks (task_manager self))"
    and "kind_of (tasks (task_manager self) ! h) = Copy"
  shows "0 < h" and "kind_of (tasks (task_manager self) ! (h - 1)) = Unload"
    and "predecessors (task_manager self) h = {h - 1}"
proof -
  have w: "wired self h" using assms(1,2) by (rule tool_inv_wired)
  obtain r d where "tasks (task_manager self) ! h = CopyDataFromS3Task r d"
    using kind_of_cases(5) [OF assms(3)] by blast
  then show "0 < h" and "kind_of (tasks (task_manager self) ! (h - 1)) = Unload"
    and "predecessors (task_manager self) h = {h - 1}"
    using w by (simp_all add: wired_def Let_def is_unload_kind)
qed

lemma wired_cleanup:
  assumes "tool_inv self" and "h < length (tasks (task_manager self))"
    and "kind_of (tasks (task_manager self) ! h) = Cleanup"
  shows "0 < h" and "kind_of (tasks (task_manager self) ! (h - 1)) = Copy"
    and "predecessors (task_manager self) h = {h - 1}"
proof -
  have w: "wired self h" using assms(1,2) by (rule tool_inv_wired)
  obtain d where "tasks (task_manager self) ! h = CleanupS3StagingAreaTask d"
    using kind_of_cases(6) [OF assms(3)] by blast
  then show "0 < h" and "kind_of (tasks (task_manager self) ! (h - 1)) = Copy"
    and "predecessors (task_manager self) h = {h - 1}"
    using w by (simp_all add: wired_def Let_def is_copy_kind)
qed

lemma predecessors_singleton_edge:
  "predecessors tm h = {a} \<Longrightarrow> (a, h) \<in> set (edges tm)"
  by (simp add: predecessors_edge [symmetric])

lemma successors_singleton_edge:
  "successors tm h = {b} \<Longrightarrow> (h, b) \<in> set (edges tm)"
  by (simp add: successors_edge [symmetric])

lemma unload_after_barrier:
  assumes "tool_inv self" and "h < length (tasks (task_manager self))"
    and "kind_of (tasks (task_manager self) ! h) = Unload"
  shows "(barrier_after_all_resource_pre_tests self, h) \<in> (set (edges (task_manager self)))\<^sup>+"
proof -
  have "(barrier_after_all_resource_pre_tests self, h) \<in> set (edges (task_manager self))"
    using wired_unload [OF assms] by (rule predecessors_singleton_edge)
  then show ?thesis by (rule trancl.r_into_trancl)
qed

lemma copy_after_barrier:
  assumes "tool_inv self" and "h < length (tasks (task_manager self))"
    and "kind_of (tasks (task_manager self) ! h) = Copy"
  shows "(barrier_after_all_resource_pre_tests self, h) \<in> (set (edges (task_manager self)))\<^sup>+"
proof -
  have u: "kind_of (tasks (task_manager self) ! (h - 1)) = Unload"
    and p: "predecessors (task_manager self) h = {h - 1}"
    using wired_copy [OF assms] by simp_all
  have "h - 1 < length (tasks (task_manager self))" using assms(2) by simp
  then have "(barrier_after_all_resource_pre_tests self, h - 1)
               \<in> (set (edges (task_manager self)))\<^sup>+"
    using assms(1) u by (simp only: unload_after_barrier)
  moreover have "(h - 1, h) \<in> set (edges (task_manager self))"
    using p by (rule predecessors_singleton_edge)
  ultimately show ?thesis by (rule trancl.trancl_into_trancl)
qed

lemma cleanup_after_barrier:
  assumes "tool_inv self" and "h < length (tasks (task_manager self))"
    and "kind_of (tasks (task_manager self) ! h) = Cleanup"
  shows "(barrier_after_all_resource_pre_tests self, h) \<in> (set (edges (task_manager self)))\<^sup>+"
proof -
  have u: "kind_of (tasks (task_manager self) ! (h - 1)) = Copy"
    and p: "predecessors (task_manager self) h = {h - 1}"
    using wired_cleanup [OF assms] by simp_all
  have "h - 1 < length (tasks (task_manager self))" using assms(2) by simp
  then have "(barrier_after_all_resource_pre_tests self, h - 1)
               \<in> (set (edges (task_manager self)))\<^sup>+"
    using assms(1) u by (simp only: copy_after_barrier)
  moreover have "(h - 1, h) \<in> set (edges (task_manager self))"
    using p by (rule predecessors_singleton_edge)
  ultimately show ?thesis by (rule trancl.trancl_into_trancl)
qed

lemma transfer_after_barrier:
  assumes "tool_inv self" and "h < length (tasks (task_manager self))"
    and "kind_of (tasks (task_manager self) ! h) = Unload
         \<or> kind_of (tasks (task_manager self) ! h) = Copy
         \<or> kind_of (tasks (task_manager self) ! h) = Cleanup"
  shows "(barrier_after_all_resource_pre_tests self, h) \<in> (set (edges (task_manager self)))\<^sup>+"
  using assms(3) unload_after_barrier [OF assms(1,2)] copy_after_barrier [OF assms(1,2)]
    cleanup_after_barrier [OF assms(1,2)] by blast

subsection \<open>The constructor, case by case\<close>

lemma run_fields [simp]:
  "task_manager (run self k) = task_manager self"
  "barrier_after_all_cluster_pre_tests (run self k) = barrier_after_all_cluster_pre_tests self"
  "barrier_after_all_resource_pre_tests (run self k) = barrier_after_all_resource_pre_tests self"
  "run_calls (run self k) = run_calls self @ [(k, task_manager self)]"
  "config_helper (run self k) = config_helper self"
  by (simp_all add: run_def)

lemma level_run [simp]: "level (run self k) h = level self h"
  by (simp add: level_def)

lemma layered_run [simp]: "layered (run self k) = layered self"
  by (simp add: layered_def)

lemma wired_run [simp]: "wired (run self k) h = wired self h"
  by (simp add: wired_def)

lemma tool_inv_run [simp]: "tool_inv (run self k) = tool_inv self"
  by (simp add: tool_inv_def)

lemma init_cases:
  fixes e config_file region_name gcv
  defines "loaded \<equiv> ConfigHelper_init e config_file (Some \<lparr>s3_region = region_name\<rparr>)"
  defines "result \<equiv> UnloadCopyTool_init e config_file region_name gcv"
  obtains (load_error) err where "loaded = Inl err" and "result = Inl (err, None)"
  | (unsupported) ch where "loaded = Inr ch"
      and "\<not> supported (get_source_resource_from_config_helper e ch region_name)
                 (get_target_resource_from_config_helper e ch region_name)"
      and "result = Inl (NotImplementedError,
                         Some (barrier_state (initial_tool ch region_name gcv)))"
  | (built) ch self new where "loaded = Inr ch"
      and "supported (get_source_resource_from_config_helper e ch region_name)
                 (get_target_resource_from_config_helper e ch region_name)"
      and "result = Inr (run self 4)" and "tool_inv self"
      and "barrier_after_all_cluster_pre_tests self = 0"
      and "barrier_after_all_resource_pre_tests self = 1"
      and "run_calls self = []" and "config_helper self = ch"
      and "tasks (task_manager self) = [NoOperationTask, NoOperationTask] @ new"
      and "map table_name (unload_sources new) =
             listed_tables e (get_source_resource_from_config_helper e ch region_name)"
      and "map kind_of new =
             concat (replicate
               (length (listed_tables e (get_source_resource_from_config_helper e ch region_name)))
               (pipeline_kinds gcv))"
proof (cases loaded)
  case (Inl err)
  then have "result = Inl (err, None)"
    unfolding loaded_def result_def by (rule init_load_error)
  then show ?thesis using Inl load_error by blast
next
  case (Inr ch)
  let ?src = "get_source_resource_from_config_helper e ch region_name"
  let ?dst = "get_target_resource_from_config_helper e ch region_name"
  let ?s0 = "barrier_state (initial_tool ch region_name gcv)"
  have res: "result = (case dispatch e ?s0 ?src ?dst gcv of
              Inl (err, self) \<Rightarrow> Inl (err, Some self)
            | Inr self \<Rightarrow> Inr (run self 4))"
    using Inr unfolding loaded_def result_def by (rule init_loaded)
  show ?thesis
  proof (cases "supported ?src ?dst")
    case False
    then have "result = Inl (NotImplementedError, Some ?s0)"
      using res by (simp add: dispatch_unsupported)
    then show ?thesis using Inr False unsupported by blast
  next
    case True
    from dispatch_supported [OF tool_inv_barrier_state True, of e "initial_tool ch region_name gcv" gcv]
    obtain self new where
      d: "dispatch e ?s0 ?src ?dst gcv = Inr self" and i: "tool_inv self"
      and f: "barrier_after_all_cluster_pre_tests self = barrier_after_all_cluster_pre_tests ?s0"
         "barrier_after_all_resource_pre_tests self = barrier_after_all_resource_pre_tests ?s0"
         "config_helper self = config_helper ?s0" "run_calls self = run_calls ?s0"
      and t: "tasks (task_manager self) = tasks (task_manager ?s0) @ new"
      and u: "map table_name (unload_sources new) = listed_tables e ?src"
      and k: "map kind_of new = concat (replicate (length (listed_tables e ?src)) (pipeline_kinds gcv))"
      by blast
    have "result = Inr (run self 4)" using res d by simp
    moreover have "run_calls self = []" "config_helper self = ch"
      using f by (simp_all add: initial_tool_def)
    moreover have "barrier_after_all_cluster_pre_tests self = 0"
      "barrier_after_all_resource_pre_tests self = 1"
      using f by simp_all
    moreover have "tasks (task_manager self) = [NoOperationTask, NoOperationTask] @ new"
      using t by simp
    ultimately show ?thesis using Inr True i u k built by blast
  qed
qed

subsection \<open>A run of the example\<close>

lemma example_loaded:
  "ConfigHelper_init (example_env source destination) example_file
     (Some \<lparr>s3_region = example_region\<rparr>) = Inr example_helper"
  by (simp add: ConfigHelper_init_def startswith_def example_env_def example_helper_def
        example_file_def example_region_def)

lemma example_table_supported: "supported example_table example_database"
  by (simp add: supported_def isinstance_def example_table_def TableResource_def
        example_database_def)

lemma example_table_run:
  "\<exists>self. UnloadCopyTool_init (example_env example_table example_database) example_file
            example_region example_gcv = Inr self \<and>
          map kind_of (tasks (task_manager self)) =
            [Barrier, Barrier, ClusterCheck, ResourceCheck, Creation, Unload, Copy, Cleanup] \<and>
          edges (task_manager self) =
            [(2, 0), (0, 3), (3, 1), (0, 4), (4, 1), (1, 5), (5, 6), (6, 7)]"
proof -
  let ?e = "example_env example_table example_database"
  let ?s0 = "barrier_state (initial_tool example_helper example_region example_gcv)"
  have src: "get_source_resource_from_config_helper ?e example_helper example_region
               = example_table"
    and dst: "get_target_resource_from_config_helper ?e example_helper example_region
               = example_database"
    by (simp_all add: example_env_def)
  have t: "isinstance example_table TableResource_class"
    and d: "isinstance example_database DBResource_class"
    and nt: "\<not> isinstance example_database TableResource_class"
    by (simp_all add: isinstance_def example_table_def TableResource_def example_database_def)
  obtain dest where
    disp: "dispatch ?e ?s0 example_table example_database example_gcv =
             add_table_migration ?s0 example_table dest example_gcv"
    using t d by (simp add: dispatch_def Let_def)
  let ?r = "table_migration_result ?s0 example_table dest example_gcv"
  have "dispatch ?e ?s0 example_table example_database example_gcv = Inr ?r"
    unfolding disp using tool_inv_barrier_state by (rule add_table_migration_result)
  then have run: "UnloadCopyTool_init ?e example_file example_region example_gcv
                = Inr (run ?r 4)"
    using init_loaded [OF example_loaded, of example_table example_database example_gcv]
    by (simp add: src dst)
  have k: "map kind_of (tasks (task_manager (run ?r 4))) =
            [Barrier, Barrier, ClusterCheck, ResourceCheck, Creation, Unload, Copy, Cleanup]"
    by (simp add: table_migration_pipeline pipeline_tasks_kinds pipeline_kinds_def example_gcv_def)
  have es: "edges (task_manager (run ?r 4)) =
            [(2, 0), (0, 3), (3, 1), (0, 4), (4, 1), (1, 5), (5, 6), (6, 7)]"
    by (simp add: table_migration_result_def example_gcv_def Let_def)
  show ?thesis using run k es by (intro exI [of _ "run ?r 4"] conjI)
qed

subsection \<open>The gate between cluster checks and resource checks\<close>

text \<open>
  Claim C3. In the graph of every tool that the constructor returns, a cluster check
  (\<open>FailIfResourceClusterDoesNotExistsTask\<close>) has no predecessor and the barrier after all
  cluster pre-tests as its only successor, and a resource check
  (\<open>FailIfResourceDoesNotExistsTask\<close>) has that barrier as its only predecessor and the
  barrier after all resource pre-tests as its only successor. The two barriers are the
  first two tasks of the graph, one for all pipelines.
\<close>

theorem preflight_gate:
  assumes "UnloadCopyTool_init e config_file region_name gcv = Inr self"
  shows "barrier_after_all_cluster_pre_tests self = 0 \<and>
         barrier_after_all_resource_pre_tests self = 1 \<and>
         (\<forall>h < length (tasks (task_manager self)).
            (kind_of (tasks (task_manager self) ! h) = ClusterCheck \<longrightarrow>
               predecessors (task_manager self) h = {} \<and>
               successors (task_manager self) h = {0}) \<and>
            (kind_of (tasks (task_manager self) ! h) = ResourceCheck \<longrightarrow>
               predecessors (task_manager self) h = {0} \<and>
               successors (task_manager self) h = {1}))"
proof (cases rule: init_cases [of e config_file region_name gcv])
  case (load_error err)
  then show ?thesis using assms by simp
next
  case (unsupported ch)
  then show ?thesis using assms by simp
next
  case (built ch self0 new)
  then have s: "self = run self0 4" using assms by simp
  have inv: "tool_inv self" unfolding s using built(4) by simp
  have b: "barrier_after_all_cluster_pre_tests self = 0"
    "barrier_after_all_resource_pre_tests self = 1"
    unfolding s using built(5,6) by simp_all
  have "predecessors (task_manager self) h = {} \<and> successors (task_manager self) h = {0}"
    if "h < length (tasks (task_manager self))"
      and "kind_of (tasks (task_manager self) ! h) = ClusterCheck" for h
    using wired_cluster_check [OF inv that] b by simp
  moreover have "predecessors (task_manager self) h = {0} \<and> successors (task_manager self) h = {1}"
    if "h < length (tasks (task_manager self))"
      and "kind_of (tasks (task_manager self) ! h) = ResourceCheck" for h
    using wired_between_barriers [OF inv that(1)] that(2) b by simp
  ultimately show ?thesis using b by (intro conjI allI impI) simp_all
qed

text \<open>
  In the run of the example the cluster check is task 2 and the resource check task 3.
\<close>

theorem preflight_gate_witness:
  "\<exists>self. UnloadCopyTool_init (example_env example_table example_database) example_file
            example_region example_gcv = Inr self \<and>
          kind_of (tasks (task_manager self) ! 2) = ClusterCheck \<and>
          predecessors (task_manager self) 2 = {} \<and> successors (task_manager self) 2 = {0} \<and>
          kind_of (tasks (task_manager self) ! 3) = ResourceCheck \<and>
          predecessors (task_manager self) 3 = {0} \<and> successors (task_manager self) 3 = {1}"
proof -
  obtain self where
    r: "UnloadCopyTool_init (example_env example_table example_database) example_file
            example_region example_gcv = Inr self"
    and k: "map kind_of (tasks (task_manager self)) =
            [Barrier, Barrier, ClusterCheck, ResourceCheck, Creation, Unload, Copy, Cleanup]"
    using example_table_run by (elim exE conjE)
  have len: "length (tasks (task_manager self)) = 8"
    using arg_cong [OF k, of length] by simp
  have k2: "kind_of (tasks (task_manager self) ! 2) = ClusterCheck"
    using arg_cong [OF k, of "\<lambda>ks. ks ! 2"] len by simp
  have k3: "kind_of (tasks (task_manager self) ! 3) = ResourceCheck"
    using arg_cong [OF k, of "\<lambda>ks. ks ! 3"] len by simp
  have g: "\<forall>h < length (tasks (task_manager self)).
            (kind_of (tasks (task_manager self) ! h) = ClusterCheck \<longrightarrow>
               predecessors (task_manager self) h = {} \<and>
               successors (task_manager self) h = {0}) \<and>
            (kind_of (tasks (task_manager self) ! h) = ResourceCheck \<longrightarrow>
               predecessors (task_manager self) h = {0} \<and>
               successors (task_manager self) h = {1})"
    using preflight_gate [OF r] by (elim conjE)
  have "predecessors (task_manager self) 2 = {} \<and> successors (task_manager self) 2 = {0}"
    using g [rule_format, of 2] len k2 by simp
  moreover have "predecessors (task_manager self) 3 = {0} \<and> successors (task_manager self) 3 = {1}"
    using g [rule_format, of 3] len k3 by simp
  ultimately show ?thesis using r k2 k3 by (intro exI [of _ self]) simp
qed

subsection \<open>The creation task\<close>

lemma preflight_tasks_create:
  assumes "destinationTableAutoCreate gcv"
  shows "\<exists>checks. preflight_tasks self source destination gcv =
           checks @ [CreateIfTargetDoesNotExistTask source (migration_destination self destination)]
         \<and> filter (\<lambda>t. kind_of t = Creation) checks = []"
proof -
  define checks where "checks =
     (if connectionPreTest gcv \<and> \<not> destinationTablePreTest gcv
      then [FailIfResourceClusterDoesNotExistsTask (migration_destination self destination)]
      else []) @
     (if connectionPreTest gcv \<and> \<not> sourceTablePreTest gcv
      then [FailIfResourceClusterDoesNotExistsTask source] else []) @
     (if destinationTablePreTest gcv
      then [FailIfResourceClusterDoesNotExistsTask (migration_destination self destination)]
      else []) @
     (if sourceTablePreTest gcv then [FailIfResourceDoesNotExistsTask source] else [])"
  have "preflight_tasks self source destination gcv =
           checks @ [CreateIfTargetDoesNotExistTask source (migration_destination self destination)]"
    using assms by (simp add: preflight_tasks_def checks_def)
  moreover have "filter (\<lambda>t. kind_of t = Creation) checks = []"
    by (simp add: checks_def)
  ultimately show ?thesis by (intro exI [of _ checks] conjI)
qed

text \<open>
  Claim C7. With \<open>destinationTableAutoCreate\<close> set, \<open>add_table_migration\<close> returns from
  a well-formed tool and has added exactly one creation task, the
  \<open>CreateIfTargetDoesNotExistTask\<close> of the source and the destination, right before the
  unload task. Its only predecessor is the barrier after all cluster pre-tests and its
  only successor the barrier after all resource pre-tests; every cluster check of the
  graph comes before it and every unload, copy and cleanup task of the graph after it in
  the dependency order.
\<close>

theorem creation_between_barriers:
  assumes "tool_inv self" and "destinationTableAutoCreate gcv"
  shows "\<exists>self' c.
           add_table_migration self source destination gcv = Inr self' \<and>
           length (tasks (task_manager self)) \<le> c \<and>
           length (tasks (task_manager self')) = c + 4 \<and>
           tasks (task_manager self') ! c =
             CreateIfTargetDoesNotExistTask source (migration_destination self destination) \<and>
           filter (\<lambda>t. kind_of t = Creation)
               (drop (length (tasks (task_manager self))) (tasks (task_manager self'))) =
             [CreateIfTargetDoesNotExistTask source (migration_destination self destination)] \<and>
           predecessors (task_manager self') c = {barrier_after_all_cluster_pre_tests self} \<and>
           successors (task_manager self') c = {barrier_after_all_resource_pre_tests self} \<and>
           (\<forall>k < length (tasks (task_manager self')).
              kind_of (tasks (task_manager self') ! k) = ClusterCheck \<longrightarrow>
              (k, c) \<in> (set (edges (task_manager self')))\<^sup>+) \<and>
           (\<forall>t < length (tasks (task_manager self')).
              kind_of (tasks (task_manager self') ! t) = Unload \<or>
              kind_of (tasks (task_manager self') ! t) = Copy \<or>
              kind_of (tasks (task_manager self') ! t) = Cleanup \<longrightarrow>
              (c, t) \<in> (set (edges (task_manager self')))\<^sup>+)"
proof -
  let ?self' = "table_migration_result self source destination gcv"
  let ?tm = "task_manager ?self'"
  let ?n = "length (tasks (task_manager self))"
  let ?create = "CreateIfTargetDoesNotExistTask source (migration_destination self destination)"
  let ?b1 = "barrier_after_all_cluster_pre_tests self"
  let ?b2 = "barrier_after_all_resource_pre_tests self"
  obtain checks where
    pre: "preflight_tasks self source destination gcv = checks @ [?create]"
    and nocreate: "filter (\<lambda>t. kind_of t = Creation) checks = []"
    using preflight_tasks_create [OF assms(2), of self source destination] by (elim exE conjE)
  let ?c = "?n + length checks"
  have r: "add_table_migration self source destination gcv = Inr ?self'"
    using assms(1) by (rule add_table_migration_result)
  have inv: "tool_inv ?self'" using assms(1) by (rule tool_inv_table_migration_result)
  have ts: "tasks ?tm = (tasks (task_manager self) @ checks) @ ?create #
       [UnloadDataToS3Task source (migration_s3_details self source),
        CopyDataFromS3Task (migration_destination self destination)
          (migration_s3_details self source),
        CleanupS3StagingAreaTask (migration_s3_details self source)]"
    by (simp add: table_migration_tasks pre)
  have len: "length (tasks ?tm) = ?c + 4" unfolding ts by simp
  have nth: "tasks ?tm ! ?c = ?create"
    unfolding ts by (simp add: nth_append)
  have one: "filter (\<lambda>t. kind_of t = Creation) (drop ?n (tasks ?tm)) = [?create]"
    unfolding ts using nocreate by simp
  have c: "?c < length (tasks ?tm)" using len by simp
  have k: "kind_of (tasks ?tm ! ?c) = Creation" using nth by simp
  have p: "predecessors ?tm ?c = {?b1}" and s: "successors ?tm ?c = {?b2}"
    using wired_between_barriers [OF inv c] k by simp_all
  have e1: "(?b1, ?c) \<in> set (edges ?tm)" using p by (rule predecessors_singleton_edge)
  have e2: "(?c, ?b2) \<in> set (edges ?tm)" using s by (rule successors_singleton_edge)
  have before: "(k, ?c) \<in> (set (edges ?tm))\<^sup>+"
    if "k < length (tasks ?tm)" and "kind_of (tasks ?tm ! k) = ClusterCheck" for k
  proof -
    have "successors ?tm k = {?b1}"
      using wired_cluster_check(2) [OF inv that] by simp
    then have "(k, ?b1) \<in> set (edges ?tm)" by (rule successors_singleton_edge)
    then show ?thesis using e1 by (meson trancl.r_into_trancl trancl.trancl_into_trancl)
  qed
  have after: "(?c, t) \<in> (set (edges ?tm))\<^sup>+"
    if "t < length (tasks ?tm)"
      and "kind_of (tasks ?tm ! t) = Unload \<or> kind_of (tasks ?tm ! t) = Copy
           \<or> kind_of (tasks ?tm ! t) = Cleanup" for t
  proof -
    have "(?b2, t) \<in> (set (edges ?tm))\<^sup>+"
      using transfer_after_barrier [OF inv that] by simp
    then show ?thesis using e2 by (rule trancl_into_trancl2 [rotated])
  qed
  show ?thesis
    using r len nth one p s before after
    by (intro exI [of _ ?self'] exI [of _ ?c] conjI allI impI) simp_all
qed

text \<open>
  Added to the tool with its two barriers, the creation task of the example is the one
  creation task of the pipeline, between barrier 0 and barrier 1.
\<close>

theorem creation_between_barriers_witness:
  "tool_inv example_tool \<and> destinationTableAutoCreate example_gcv \<and>
   (\<exists>self' c.
      add_table_migration example_tool example_table example_database example_gcv = Inr self' \<and>
      tasks (task_manager self') ! c =
        CreateIfTargetDoesNotExistTask example_table
          (migration_destination example_tool example_database) \<and>
      predecessors (task_manager self') c = {0} \<and>
      successors (task_manager self') c = {1})"
proof -
  have h: "tool_inv example_tool" by (rule tool_inv_example)
  have a: "destinationTableAutoCreate example_gcv" by (simp add: example_gcv_def)
  have b: "barrier_after_all_cluster_pre_tests example_tool = 0"
    "barrier_after_all_resource_pre_tests example_tool = 1"
    by (simp_all add: example_tool_def)
  obtain self' c where
    "add_table_migration example_tool example_table example_database example_gcv = Inr self'"
    "tasks (task_manager self') ! c =
        CreateIfTargetDoesNotExistTask example_table
          (migration_destination example_tool example_database)"
    "predecessors (task_manager self') c = {barrier_after_all_cluster_pre_tests example_tool}"
    "successors (task_manager self') c = {barrier_after_all_resource_pre_tests example_tool}"
    using creation_between_barriers [OF h a, of example_table example_database]
    by (elim exE conjE)
  then show ?thesis using h a unfolding b by (intro conjI exI [of _ self'] exI [of _ c])
qed

subsection \<open>The two barriers\<close>

lemma pipeline_kinds_no_barrier: "Barrier \<notin> set (concat (replicate n (pipeline_kinds gcv)))"
  by (simp add: pipeline_kinds_def)

lemma kinds_no_barrier:
  assumes "map kind_of new = concat (replicate n (pipeline_kinds gcv))"
  shows "NoOperationTask \<notin> set new"
proof
  assume "NoOperationTask \<in> set new"
  then have "kind_of NoOperationTask \<in> set (map kind_of new)" by (simp only: set_map imageI)
  then have "Barrier \<in> set (concat (replicate n (pipeline_kinds gcv)))"
    unfolding assms by simp
  then show False using pipeline_kinds_no_barrier [of n gcv] by (rule rev_notE)
qed

text \<open>
  Claim C8. Once the configuration is loaded, the tool that the constructor returns, or
  leaves behind when it raises \<open>NotImplementedError\<close>, has a graph whose first two tasks
  are no-operation tasks and which holds no other no-operation task; the two barrier
  attributes are the handles 0 and 1 of these tasks. Every cluster check of the graph
  has barrier 0 as its only successor and every unload task barrier 1 as its only
  predecessor, so all pipelines share the two barriers.
\<close>

theorem shared_barriers:
  assumes "ConfigHelper_init e config_file (Some \<lparr>s3_region = region_name\<rparr>) = Inr ch"
  shows "\<exists>self rest.
           (UnloadCopyTool_init e config_file region_name gcv = Inr self \<or>
            UnloadCopyTool_init e config_file region_name gcv
              = Inl (NotImplementedError, Some self)) \<and>
           tasks (task_manager self) = NoOperationTask # NoOperationTask # rest \<and>
           NoOperationTask \<notin> set rest \<and>
           barrier_after_all_cluster_pre_tests self = 0 \<and>
           barrier_after_all_resource_pre_tests self = 1 \<and>
           (\<forall>h < length (tasks (task_manager self)).
              (kind_of (tasks (task_manager self) ! h) = ClusterCheck \<longrightarrow>
                 successors (task_manager self) h = {0}) \<and>
              (kind_of (tasks (task_manager self) ! h) = Unload \<longrightarrow>
                 predecessors (task_manager self) h = {1}))"
proof -
  have wiring: "\<forall>h < length (tasks (task_manager self)).
              (kind_of (tasks (task_manager self) ! h) = ClusterCheck \<longrightarrow>
                 successors (task_manager self) h = {0}) \<and>
              (kind_of (tasks (task_manager self) ! h) = Unload \<longrightarrow>
                 predecessors (task_manager self) h = {1})"
    if inv: "tool_inv self" and b: "barrier_after_all_cluster_pre_tests self = 0"
      "barrier_after_all_resource_pre_tests self = 1" for self
  proof (intro allI impI conjI)
    fix h assume h: "h < length (tasks (task_manager self))"
    show "successors (task_manager self) h = {0}"
      if "kind_of (tasks (task_manager self) ! h) = ClusterCheck"
      using wired_cluster_check(2) [OF inv h that] b by simp
    show "predecessors (task_manager self) h = {1}"
      if "kind_of (tasks (task_manager self) ! h) = Unload"
      using wired_unload [OF inv h that] b by simp
  qed
  show ?thesis
  proof (cases rule: init_cases [of e config_file region_name gcv])
    case (load_error err)
    then show ?thesis using assms by simp
  next
    case (unsupported ch')
    let ?s = "barrier_state (initial_tool ch' region_name gcv)"
    have "tasks (task_manager ?s) = NoOperationTask # NoOperationTask # []" by simp
    moreover have "NoOperationTask \<notin> set []" by simp
    moreover have "barrier_after_all_cluster_pre_tests ?s = 0"
      "barrier_after_all_resource_pre_tests ?s = 1" by simp_all
    moreover have "tool_inv ?s" by (rule tool_inv_barrier_state)
    ultimately show ?thesis
      using unsupported(3) wiring [of ?s] by (intro exI [of _ ?s] exI [of _ "[]"] conjI disjI2)
  next
    case (built ch' self0 new)
    let ?s = "run self0 4"
    have "tasks (task_manager ?s) = NoOperationTask # NoOperationTask # new"
      using built(9) by simp
    moreover have "NoOperationTask \<notin> set new" using built(11) by (rule kinds_no_barrier)
    moreover have b: "barrier_after_all_cluster_pre_tests ?s = 0"
      "barrier_after_all_resource_pre_tests ?s = 1" using built(5,6) by simp_all
    moreover have "tool_inv ?s" using built(4) by simp
    ultimately show ?thesis
      using built(3) wiring [of ?s] by (intro exI [of _ ?s] exI [of _ new] conjI disjI1)
  qed
qed

text \<open>
  The configuration of the example loads, and the constructor ends with the two
  barriers at the head of the graph.
\<close>

theorem shared_barriers_witness:
  "ConfigHelper_init (example_env example_table example_database) example_file
     (Some \<lparr>s3_region = example_region\<rparr>) = Inr example_helper \<and>
   (\<exists>self rest.
      (UnloadCopyTool_init (example_env example_table example_database) example_file
         example_region example_gcv = Inr self \<or>
       UnloadCopyTool_init (example_env example_table example_database) example_file
         example_region example_gcv = Inl (NotImplementedError, Some self)) \<and>
      tasks (task_manager self) = NoOperationTask # NoOperationTask # rest \<and>
      NoOperationTask \<notin> set rest \<and>
      barrier_after_all_cluster_pre_tests self = 0 \<and>
      barrier_after_all_resource_pre_tests self = 1)"
proof -
  have h: "ConfigHelper_init (example_env example_table example_database) example_file
     (Some \<lparr>s3_region = example_region\<rparr>) = Inr example_helper"
    by (rule example_loaded)
  obtain self rest where
    "UnloadCopyTool_init (example_env example_table example_database) example_file
         example_region example_gcv = Inr self \<or>
       UnloadCopyTool_init (example_env example_table example_database) example_file
         example_region example_gcv = Inl (NotImplementedError, Some self)"
    "tasks (task_manager self) = NoOperationTask # NoOperationTask # rest"
    "NoOperationTask \<notin> set rest"
    "barrier_after_all_cluster_pre_tests self = 0"
    "barrier_after_all_resource_pre_tests self = 1"
    using shared_barriers [OF h, of example_gcv] by (elim exE conjE)
  then show ?thesis using h by (intro conjI exI [of _ self] exI [of _ rest])
qed

subsection \<open>Errors of the constructor and the call of the executor\<close>

lemma not_supported_iff:
  "\<not> supported source destination \<longleftrightarrow>
     (isinstance source TableResource_class \<and> \<not> isinstance destination DBResource_class) \<or>
     ((isinstance source SchemaResource_class \<or> isinstance source DBResource_class) \<and>
        \<not> isinstance destination DBResource_class) \<or>
     (\<not> isinstance source TableResource_class \<and> \<not> isinstance source SchemaResource_class \<and>
        \<not> isinstance source DBResource_class)"
  by (auto simp: supported_def)

lemma initial_run_calls [simp]: "run_calls (initial_tool ch region_name gcv) = []"
  by (simp add: initial_tool_def)

lemma example_other_unsupported: "\<not> supported example_table example_other"
  by (simp add: supported_def isinstance_def example_other_def)

lemma example_unsupported_run:
  "UnloadCopyTool_init (example_env example_table example_other) example_file example_region
     example_gcv
   = Inl (NotImplementedError,
          Some (barrier_state (initial_tool example_helper example_region example_gcv)))"
proof -
  let ?e = "example_env example_table example_other"
  have "get_source_resource_from_config_helper ?e example_helper example_region = example_table"
    "get_target_resource_from_config_helper ?e example_helper example_region = example_other"
    by (simp_all add: example_env_def)
  then show ?thesis
    using init_loaded [OF example_loaded, of example_table example_other example_gcv]
      example_other_unsupported
    by (simp add: dispatch_unsupported)
qed

text \<open>
  Claim C6. Whenever the constructor raises an error and a tool exists at that moment,
  \<open>task_manager.run\<close> has not been called. When the configuration is loaded and the
  source is a table but the destination is no database resource, or the source is a
  schema or a database but the destination is no database resource, or the source is of
  none of the three kinds, the constructor raises \<open>NotImplementedError\<close>, with the two
  barriers as the only tasks of the graph and no call of \<open>run\<close>.
\<close>

theorem errors_before_run:
  "(\<forall>err self. UnloadCopyTool_init e config_file region_name gcv = Inl (err, Some self) \<longrightarrow>
      run_calls self = []) \<and>
   (\<forall>ch source destination.
      ConfigHelper_init e config_file (Some \<lparr>s3_region = region_name\<rparr>) = Inr ch \<and>
      source = get_source_resource_from_config_helper e ch region_name \<and>
      destination = get_target_resource_from_config_helper e ch region_name \<and>
      ((isinstance source TableResource_class \<and> \<not> isinstance destination DBResource_class) \<or>
       ((isinstance source SchemaResource_class \<or> isinstance source DBResource_class) \<and>
          \<not> isinstance destination DBResource_class) \<or>
       (\<not> isinstance source TableResource_class \<and> \<not> isinstance source SchemaResource_class \<and>
          \<not> isinstance source DBResource_class)) \<longrightarrow>
      (\<exists>self. UnloadCopyTool_init e config_file region_name gcv
                 = Inl (NotImplementedError, Some self) \<and>
              run_calls self = [] \<and>
              tasks (task_manager self) = [NoOperationTask, NoOperationTask]))"
proof (intro conjI allI impI)
  fix err self
  assume raised: "UnloadCopyTool_init e config_file region_name gcv = Inl (err, Some self)"
  show "run_calls self = []"
  proof (cases rule: init_cases [of e config_file region_name gcv])
    case (load_error err')
    then show ?thesis using raised by simp
  next
    case (unsupported ch)
    then have "self = barrier_state (initial_tool ch region_name gcv)" using raised by simp
    then show ?thesis by simp
  next
    case (built ch self0 new)
    then show ?thesis using raised by simp
  qed
next
  fix ch source destination
  assume a: "ConfigHelper_init e config_file (Some \<lparr>s3_region = region_name\<rparr>) = Inr ch \<and>
      source = get_source_resource_from_config_helper e ch region_name \<and>
      destination = get_target_resource_from_config_helper e ch region_name \<and>
      ((isinstance source TableResource_class \<and> \<not> isinstance destination DBResource_class) \<or>
       ((isinstance source SchemaResource_class \<or> isinstance source DBResource_class) \<and>
          \<not> isinstance destination DBResource_class) \<or>
       (\<not> isinstance source TableResource_class \<and> \<not> isinstance source SchemaResource_class \<and>
          \<not> isinstance source DBResource_class))"
  then have ns: "\<not> supported (get_source_resource_from_config_helper e ch region_name)
                   (get_target_resource_from_config_helper e ch region_name)"
    unfolding not_supported_iff by blast
  let ?s = "barrier_state (initial_tool ch region_name gcv)"
  have "UnloadCopyTool_init e config_file region_name gcv = Inl (NotImplementedError, Some ?s)"
    using init_loaded [of e config_file region_name ch gcv] a ns
    by (simp add: dispatch_unsupported)
  moreover have "run_calls ?s = []" "tasks (task_manager ?s) = [NoOperationTask, NoOperationTask]"
    by simp_all
  ultimately show "\<exists>self. UnloadCopyTool_init e config_file region_name gcv
                 = Inl (NotImplementedError, Some self) \<and>
              run_calls self = [] \<and>
              tasks (task_manager self) = [NoOperationTask, NoOperationTask]"
    by (intro exI [of _ ?s] conjI)
qed

text \<open>
  With a table as the source and a destination that is no database resource, the
  constructor of the example raises \<open>NotImplementedError\<close> and \<open>run\<close> is not called.
\<close>

theorem errors_before_run_witness:
  "ConfigHelper_init (example_env example_table example_other) example_file
     (Some \<lparr>s3_region = example_region\<rparr>) = Inr example_helper \<and>
   isinstance example_table TableResource_class \<and>
   \<not> isinstance example_other DBResource_class \<and>
   (\<exists>self. UnloadCopyTool_init (example_env example_table example_other) example_file
             example_region example_gcv = Inl (NotImplementedError, Some self) \<and>
           run_calls self = [] \<and>
           tasks (task_manager self) = [NoOperationTask, NoOperationTask])"
proof -
  let ?e = "example_env example_table example_other"
  have l: "ConfigHelper_init ?e example_file (Some \<lparr>s3_region = example_region\<rparr>)
             = Inr example_helper"
    by (rule example_loaded)
  have s: "example_table = get_source_resource_from_config_helper ?e example_helper example_region"
    and d: "example_other = get_target_resource_from_config_helper ?e example_helper example_region"
    by (simp_all add: example_env_def)
  have t: "isinstance example_table TableResource_class"
    by (simp add: isinstance_def example_table_def TableResource_def)
  have n: "\<not> isinstance example_other DBResource_class"
    by (simp add: isinstance_def example_other_def)
  have "\<exists>self. UnloadCopyTool_init ?e example_file example_region example_gcv
                 = Inl (NotImplementedError, Some self) \<and>
              run_calls self = [] \<and>
              tasks (task_manager self) = [NoOperationTask, NoOperationTask]"
    using errors_before_run [of ?e example_file example_region example_gcv,
        THEN conjunct2, rule_format, of example_helper example_table example_other]
      l s d t n by (simp only: simp_thms)
  then show ?thesis using l t n by (intro conjI)
qed

lemma length_concat_replicate: "length (concat (replicate n xs)) = n * length xs"
  by (induction n) simp_all

text \<open>
  Claim C5, amended. Whenever the constructor returns a tool, \<open>task_manager.run\<close> has
  been called exactly once, with \<open>max_threads = 4\<close> and on the graph of the returned
  tool; whenever it raises an error and leaves a tool, \<open>run\<close> has not been called. When
  the configuration is loaded (with its two cluster descriptions) and the migration is
  supported, the constructor returns, and the graph given to \<open>run\<close> holds the two
  barriers and one pipeline for every table of the migration; the number 4 does not
  depend on the number of tables. When the configuration is loaded and the migration is
  not supported, the constructor raises \<open>NotImplementedError\<close> and \<open>run\<close> is not called.
\<close>

theorem run_once:
  "(\<forall>self. UnloadCopyTool_init e config_file region_name gcv = Inr self \<longrightarrow>
      run_calls self = [(4, task_manager self)]) \<and>
   (\<forall>err self. UnloadCopyTool_init e config_file region_name gcv = Inl (err, Some self) \<longrightarrow>
      run_calls self = []) \<and>
   (\<forall>ch. ConfigHelper_init e config_file (Some \<lparr>s3_region = region_name\<rparr>) = Inr ch \<and>
      supported (get_source_resource_from_config_helper e ch region_name)
        (get_target_resource_from_config_helper e ch region_name) \<longrightarrow>
      (\<exists>self. UnloadCopyTool_init e config_file region_name gcv = Inr self \<and>
         run_calls self = [(4, task_manager self)] \<and>
         length (tasks (task_manager self)) =
           2 + length (listed_tables e (get_source_resource_from_config_helper e ch region_name))
               * length (pipeline_kinds gcv))) \<and>
   (\<forall>ch. ConfigHelper_init e config_file (Some \<lparr>s3_region = region_name\<rparr>) = Inr ch \<and>
      \<not> supported (get_source_resource_from_config_helper e ch region_name)
          (get_target_resource_from_config_helper e ch region_name) \<longrightarrow>
      (\<exists>self. UnloadCopyTool_init e config_file region_name gcv
                 = Inl (NotImplementedError, Some self) \<and>
              run_calls self = []))"
proof (intro conjI allI impI)
  fix self
  assume ret: "UnloadCopyTool_init e config_file region_name gcv = Inr self"
  show "run_calls self = [(4, task_manager self)]"
  proof (cases rule: init_cases [of e config_file region_name gcv])
    case (load_error err)
    then show ?thesis using ret by simp
  next
    case (unsupported ch)
    then show ?thesis using ret by simp
  next
    case (built ch self0 new)
    then have "self = run self0 4" using ret by simp
    then show ?thesis using built(7) by simp
  qed
next
  fix err self
  assume raised: "UnloadCopyTool_init e config_file region_name gcv = Inl (err, Some self)"
  show "run_calls self = []"
  proof (cases rule: init_cases [of e config_file region_name gcv])
    case (load_error err')
    then show ?thesis using raised by simp
  next
    case (unsupported ch)
    then have "self = barrier_state (initial_tool ch region_name gcv)" using raised by simp
    then show ?thesis by simp
  next
    case (built ch self0 new)
    then show ?thesis using raised by simp
  qed
next
  fix ch
  assume a: "ConfigHelper_init e config_file (Some \<lparr>s3_region = region_name\<rparr>) = Inr ch \<and>
      supported (get_source_resource_from_config_helper e ch region_name)
        (get_target_resource_from_config_helper e ch region_name)"
  let ?src = "get_source_resource_from_config_helper e ch region_name"
  show "\<exists>self. UnloadCopyTool_init e config_file region_name gcv = Inr self \<and>
         run_calls self = [(4, task_manager self)] \<and>
         length (tasks (task_manager self)) =
           2 + length (listed_tables e ?src) * length (pipeline_kinds gcv)"
  proof (cases rule: init_cases [of e config_file region_name gcv])
    case (load_error err)
    then show ?thesis using a by simp
  next
    case (unsupported ch')
    then show ?thesis using a by simp
  next
    case (built ch' self0 new)
    then have ch: "ch' = ch" using a by simp
    have "length new = length (listed_tables e ?src) * length (pipeline_kinds gcv)"
      using arg_cong [OF built(11), of length] unfolding ch
      by (simp only: length_map length_concat_replicate)
    then have "length (tasks (task_manager (run self0 4))) =
           2 + length (listed_tables e ?src) * length (pipeline_kinds gcv)"
      using built(9) by simp
    moreover have "run_calls (run self0 4) = [(4, task_manager (run self0 4))]"
      using built(7) by simp
    ultimately show ?thesis using built(3) by (intro exI [of _ "run self0 4"] conjI)
  qed
next
  fix ch
  assume a: "ConfigHelper_init e config_file (Some \<lparr>s3_region = region_name\<rparr>) = Inr ch \<and>
      \<not> supported (get_source_resource_from_config_helper e ch region_name)
          (get_target_resource_from_config_helper e ch region_name)"
  let ?s = "barrier_state (initial_tool ch region_name gcv)"
  have "UnloadCopyTool_init e config_file region_name gcv = Inl (NotImplementedError, Some ?s)"
    using init_loaded [of e config_file region_name ch gcv] a
    by (simp add: dispatch_unsupported)
  moreover have "run_calls ?s = []" by simp
  ultimately show "\<exists>self. UnloadCopyTool_init e config_file region_name gcv
                 = Inl (NotImplementedError, Some self) \<and> run_calls self = []"
    by (intro exI [of _ ?s] conjI)
qed

text \<open>
  The table migration of the example is supported: the constructor returns, with one
  call of \<open>run\<close>. With a destination that is no database resource it is not supported:
  the constructor raises \<open>NotImplementedError\<close>, with no call of \<open>run\<close>.
\<close>

theorem run_once_witness:
  "ConfigHelper_init (example_env example_table example_database) example_file
     (Some \<lparr>s3_region = example_region\<rparr>) = Inr example_helper \<and>
   supported example_table example_database \<and>
   (\<exists>self. UnloadCopyTool_init (example_env example_table example_database) example_file
             example_region example_gcv = Inr self \<and>
           run_calls self = [(4, task_manager self)]) \<and>
   ConfigHelper_init (example_env example_table example_other) example_file
     (Some \<lparr>s3_region = example_region\<rparr>) = Inr example_helper \<and>
   \<not> supported example_table example_other \<and>
   (\<exists>self. UnloadCopyTool_init (example_env example_table example_other) example_file
             example_region example_gcv = Inl (NotImplementedError, Some self) \<and>
           run_calls self = [])"
proof -
  let ?e = "example_env example_table example_database"
  let ?f = "example_env example_table example_other"
  have l: "ConfigHelper_init ?e example_file (Some \<lparr>s3_region = example_region\<rparr>)
             = Inr example_helper"
    by (rule example_loaded)
  have l': "ConfigHelper_init ?f example_file (Some \<lparr>s3_region = example_region\<rparr>)
             = Inr example_helper"
    by (rule example_loaded)
  have s: "get_source_resource_from_config_helper ?e example_helper example_region = example_table"
    and d: "get_target_resource_from_config_helper ?e example_helper example_region
              = example_database"
    and s': "get_source_resource_from_config_helper ?f example_helper example_region = example_table"
    and d': "get_target_resource_from_config_helper ?f example_helper example_region
              = example_other"
    by (simp_all add: example_env_def)
  have sup: "supported (get_source_resource_from_config_helper ?e example_helper example_region)
               (get_target_resource_from_config_helper ?e example_helper example_region)"
    unfolding s d by (rule example_table_supported)
  have nsup: "\<not> supported (get_source_resource_from_config_helper ?f example_helper example_region)
               (get_target_resource_from_config_helper ?f example_helper example_region)"
    unfolding s' d' by (rule example_other_unsupported)
  obtain self where
    1: "UnloadCopyTool_init ?e example_file example_region example_gcv = Inr self"
    "run_calls self = [(4, task_manager self)]"
    using run_once [of ?e example_file example_region example_gcv, THEN conjunct2,
        THEN conjunct2, THEN conjunct1, rule_format, of example_helper, OF conjI [OF l sup]]
    by (elim exE conjE)
  obtain self' where
    2: "UnloadCopyTool_init ?f example_file example_region example_gcv
          = Inl (NotImplementedError, Some self')"
    "run_calls self' = []"
    using run_once [of ?f example_file example_region example_gcv, THEN conjunct2,
        THEN conjunct2, THEN conjunct2, rule_format, of example_helper, OF conjI [OF l' nsup]]
    by (elim exE conjE)
  have a: "\<exists>self. UnloadCopyTool_init ?e example_file example_region example_gcv = Inr self \<and>
           run_calls self = [(4, task_manager self)]"
    using 1 by (intro exI [of _ self] conjI)
  have b: "\<exists>self. UnloadCopyTool_init ?f example_file example_region example_gcv
             = Inl (NotImplementedError, Some self) \<and> run_calls self = []"
    using 2 by (intro exI [of _ self'] conjI)
  show ?thesis
    using l example_table_supported a l' example_other_unsupported b by (intro conjI)
qed

text \<open>
  Claim C5 as stated fails for a configuration that is not supported: with a
  destination that is no database resource the constructor raises
  \<open>NotImplementedError\<close>, and the tool it leaves behind has no call of \<open>run\<close>.
\<close>

theorem run_once_counterexample:
  "UnloadCopyTool_init (example_env example_table example_other) example_file example_region
     example_gcv
   = Inl (NotImplementedError,
          Some (barrier_state (initial_tool example_helper example_region example_gcv))) \<and>
   run_calls (barrier_state (initial_tool example_helper example_region example_gcv)) = []"
  using example_unsupported_run by simp

subsection \<open>Loading the configuration\<close>






subsection \<open>One pipeline for every table\<close>

text \<open>
  Claim C4. When the configuration is loaded and the migration is supported, the
  constructor returns a tool whose graph consists of the two barriers and, for every
  table of the migration in turn, the tasks of one pipeline: the sources of the unload
  tasks name the tables of the migration one by one (the table itself for a table
  resource, the tables the schema lists for a schema resource, the tables listed by each
  schema that the database lists for a database resource), and the kinds of the tasks
  repeat the kinds of the pipeline once for every table.
\<close>

theorem one_pipeline_per_table:
  assumes "ConfigHelper_init e config_file (Some \<lparr>s3_region = region_name\<rparr>) = Inr ch"
    and "supported (get_source_resource_from_config_helper e ch region_name)
           (get_target_resource_from_config_helper e ch region_name)"
  shows "\<exists>self new.
           UnloadCopyTool_init e config_file region_name gcv = Inr self \<and>
           tasks (task_manager self) = NoOperationTask # NoOperationTask # new \<and>
           map table_name (unload_sources new) =
             listed_tables e (get_source_resource_from_config_helper e ch region_name) \<and>
           map kind_of new =
             concat (replicate
               (length (listed_tables e (get_source_resource_from_config_helper e ch region_name)))
               (pipeline_kinds gcv))"
proof (cases rule: init_cases [of e config_file region_name gcv])
  case (load_error err)
  then show ?thesis using assms by simp
next
  case (unsupported ch')
  then show ?thesis using assms by simp
next
  case (built ch' self0 new)
  then have ch: "ch' = ch" using assms by simp
  have "tasks (task_manager (run self0 4)) = NoOperationTask # NoOperationTask # new"
    using built(9) by simp
  then show ?thesis
    using built(3,10,11) unfolding ch by (intro exI [of _ "run self0 4"] exI [of _ new] conjI)
qed

lemma example_database_supported: "supported example_database example_database"
  by (simp add: supported_def isinstance_def example_database_def)

lemma example_database_tables:
  "listed_tables (example_env example_database example_database) example_database =
     [(Some ''public'', Some ''orders''), (Some ''public'', Some ''items''),
      (Some ''sales'', Some ''orders''), (Some ''sales'', Some ''items'')]"
  by (simp add: listed_tables_def isinstance_def example_database_def example_env_def)

text \<open>
  The database of the example lists two schemas of two tables each: four pipelines.
\<close>

theorem one_pipeline_per_table_witness:
  "ConfigHelper_init (example_env example_database example_database) example_file
     (Some \<lparr>s3_region = example_region\<rparr>) = Inr example_helper \<and>
   supported example_database example_database \<and>
   (\<exists>self new.
      UnloadCopyTool_init (example_env example_database example_database) example_file
        example_region example_gcv = Inr self \<and>
      tasks (task_manager self) = NoOperationTask # NoOperationTask # new \<and>
      map table_name (unload_sources new) =
        [(Some ''public'', Some ''orders''), (Some ''public'', Some ''items''),
         (Some ''sales'', Some ''orders''), (Some ''sales'', Some ''items'')] \<and>
      map kind_of new =
        concat (replicate 4 [ClusterCheck, ResourceCheck, Creation, Unload, Copy, Cleanup]))"
proof -
  let ?e = "example_env example_database example_database"
  have l: "ConfigHelper_init ?e example_file (Some \<lparr>s3_region = example_region\<rparr>)
             = Inr example_helper"
    by (rule example_loaded)
  have s: "get_source_resource_from_config_helper ?e example_helper example_region
             = example_database"
    and d: "get_target_resource_from_config_helper ?e example_helper example_region
              = example_database"
    by (simp_all add: example_env_def)
  have sup: "supported (get_source_resource_from_config_helper ?e example_helper example_region)
               (get_target_resource_from_config_helper ?e example_helper example_region)"
    unfolding s d by (rule example_database_supported)
  have pk: "pipeline_kinds example_gcv = [ClusterCheck, ResourceCheck, Creation, Unload, Copy, Cleanup]"
    by (simp add: pipeline_kinds_def example_gcv_def)
  obtain self new where
    r: "UnloadCopyTool_init ?e example_file example_region example_gcv = Inr self"
    and t: "tasks (task_manager self) = NoOperationTask # NoOperationTask # new"
    and u: "map table_name (unload_sources new) =
             listed_tables ?e (get_source_resource_from_config_helper ?e example_helper example_region)"
    and k: "map kind_of new =
             concat (replicate
               (length (listed_tables ?e
                  (get_source_resource_from_config_helper ?e example_helper example_region)))
               (pipeline_kinds example_gcv))"
    using one_pipeline_per_table [OF l sup, of example_gcv] by (elim exE conjE)
  have u': "map table_name (unload_sources new) =
        [(Some ''public'', Some ''orders''), (Some ''public'', Some ''items''),
         (Some ''sales'', Some ''orders''), (Some ''sales'', Some ''items'')]"
    using u unfolding s example_database_tables .
  have k': "map kind_of new =
        concat (replicate 4 [ClusterCheck, ResourceCheck, Creation, Unload, Copy, Cleanup])"
    using k unfolding s example_database_tables pk by (simp add: eval_nat_numeral)
  show ?thesis
    using l example_database_supported r t u' k'
    by (intro conjI exI [of _ self] exI [of _ new])
qed

subsection \<open>Cluster objects of a schema migration\<close>

lemma map_enumerate_fst: "map (\<lambda>(k, x). g k) (enumerate n xs) = map g [n..<n + length xs]"
proof -
  have e: "(\<lambda>(k, x). g k) = g \<circ> fst" by (simp add: fun_eq_iff)
  show ?thesis unfolding e by (simp only: map_map [symmetric] map_fst_enumerate)
qed

lemma serials_distinct:
  "distinct (map (\<lambda>k. c + 2 * k) [0..<m] @ map (\<lambda>k. c + 2 * k + 1) [0..<m])"
proof -
  have "distinct (map (\<lambda>k. c + 2 * k) [0..<m])"
    by (simp add: distinct_map inj_on_def)
  moreover have "distinct (map (\<lambda>k. c + 2 * k + 1) [0..<m])"
    by (simp add: distinct_map inj_on_def)
  moreover have "c + 2 * k \<noteq> c + 2 * k' + 1" for k k' :: nat by presburger
  then have "set (map (\<lambda>k. c + 2 * k) [0..<m]) \<inter> set (map (\<lambda>k. c + 2 * k + 1) [0..<m]) = {}"
    by auto
  ultimately show ?thesis by (simp only: distinct_append simp_thms)
qed

text \<open>
  Claim C10. From a well-formed tool, \<open>add_schema_migration\<close> returns; for the \<open>k\<close>-th
  table that the schema lists the source of the unload task sits on the cluster created
  by call \<open>2k\<close> of the cluster factory, from \<open>unloadSource\<close>, and the destination of the
  copy task on the cluster created by call \<open>2k + 1\<close>, from \<open>copyTarget\<close>. These cluster
  objects are pairwise distinct and none of them existed before the migration; two
  clusters are created for every table.
\<close>

theorem cluster_per_table:
  assumes "tool_inv self"
  shows "\<exists>self' new.
           add_schema_migration e self source destination gcv = Inr self' \<and>
           tasks (task_manager self') = tasks (task_manager self) @ new \<and>
           map res_cluster (unload_sources new) =
             map (\<lambda>k. new_cluster self (2 * k) (unloadSource (ch_config (config_helper self))))
               [0..<length (list_tables e source)] \<and>
           map res_cluster (copy_destinations new) =
             map (\<lambda>k. new_cluster self (2 * k + 1) (copyTarget (ch_config (config_helper self))))
               [0..<length (list_tables e source)] \<and>
           distinct (map (\<lambda>r. cluster_serial (res_cluster r))
                       (unload_sources new @ copy_destinations new)) \<and>
           (\<forall>r \<in> set (unload_sources new @ copy_destinations new).
              clusters_created self \<le> cluster_serial (res_cluster r)) \<and>
           clusters_created self' = clusters_created self + 2 * length (list_tables e source)"
proof -
  let ?tables = "list_tables e source"
  let ?m = "length ?tables"
  let ?c = "clusters_created self"
  from add_schema_tables_ok [OF assms, of e source destination gcv ?tables]
  obtain self' new where
    r: "add_schema_tables e self source destination gcv ?tables = Inr self'"
    and cc: "clusters_created self' = ?c + 2 * ?m"
    and t: "tasks (task_manager self') = tasks (task_manager self) @ new"
    and u: "unload_sources new =
             map (\<lambda>(k, table). TableResource
                    (new_cluster self (2 * k) (unloadSource (ch_config (config_helper self))))
                    (get_schema source) table)
               (enumerate 0 ?tables)"
    and c: "map res_cluster (copy_destinations new) =
             map (\<lambda>k. new_cluster self (2 * k + 1) (copyTarget (ch_config (config_helper self))))
               [0..<?m]"
    by (elim exE conjE)
  have "map res_cluster (unload_sources new) =
          map (\<lambda>(k, table). new_cluster self (2 * k) (unloadSource (ch_config (config_helper self))))
            (enumerate 0 ?tables)"
    unfolding u by (simp add: TableResource_def split_def)
  then have u': "map res_cluster (unload_sources new) =
             map (\<lambda>k. new_cluster self (2 * k) (unloadSource (ch_config (config_helper self))))
               [0..<?m]"
    by (simp only: map_enumerate_fst add_0)
  have su: "map (\<lambda>r. cluster_serial (res_cluster r)) (unload_sources new) =
              map (\<lambda>k. ?c + 2 * k) [0..<?m]"
    using arg_cong [OF u', of "map cluster_serial"] by (simp add: new_cluster_def comp_def)
  have sc: "map (\<lambda>r. cluster_serial (res_cluster r)) (copy_destinations new) =
              map (\<lambda>k. ?c + 2 * k + 1) [0..<?m]"
    using arg_cong [OF c, of "map cluster_serial"] by (simp add: new_cluster_def comp_def)
  have all: "map (\<lambda>r. cluster_serial (res_cluster r)) (unload_sources new @ copy_destinations new)
           = map (\<lambda>k. ?c + 2 * k) [0..<?m] @ map (\<lambda>k. ?c + 2 * k + 1) [0..<?m]"
    using su sc by simp
  have d: "distinct (map (\<lambda>r. cluster_serial (res_cluster r))
                       (unload_sources new @ copy_destinations new))"
    unfolding all by (rule serials_distinct)
  have f: "\<forall>r \<in> set (unload_sources new @ copy_destinations new).
              ?c \<le> cluster_serial (res_cluster r)"
  proof
    fix r assume "r \<in> set (unload_sources new @ copy_destinations new)"
    then have "cluster_serial (res_cluster r)
                 \<in> (\<lambda>r. cluster_serial (res_cluster r)) `
                     set (unload_sources new @ copy_destinations new)"
      by (rule imageI)
    then have "cluster_serial (res_cluster r)
                 \<in> set (map (\<lambda>r. cluster_serial (res_cluster r))
                          (unload_sources new @ copy_destinations new))"
      by (simp only: set_map)
    then show "?c \<le> cluster_serial (res_cluster r)" unfolding all by auto
  qed
  have r': "add_schema_migration e self source destination gcv = Inr self'"
    using r by (simp add: add_schema_migration_def)
  show ?thesis
    using r' t u' c d f cc by (intro exI [of _ self'] exI [of _ new] conjI)
qed

text \<open>
  The schema of the example lists two tables: the clusters 0 and 2 carry the sources,
  the clusters 1 and 3 the destinations.
\<close>

theorem cluster_per_table_witness:
  "tool_inv example_tool \<and>
   (\<exists>self' new.
      add_schema_migration (example_env example_schema example_database) example_tool
        example_schema example_database example_gcv = Inr self' \<and>
      tasks (task_manager self') = tasks (task_manager example_tool) @ new \<and>
      map (\<lambda>r. cluster_serial (res_cluster r)) (unload_sources new) = [0, 2] \<and>
      map (\<lambda>r. cluster_serial (res_cluster r)) (copy_destinations new) = [1, 3] \<and>
      clusters_created self' = 4)"
proof -
  let ?e = "example_env example_schema example_database"
  have h: "tool_inv example_tool" by (rule tool_inv_example)
  have m: "length (list_tables ?e example_schema) = 2" by (simp add: example_env_def)
  have c0: "clusters_created example_tool = 0"
    by (simp add: example_tool_def initial_tool_def)
  obtain self' new where
    r: "add_schema_migration ?e example_tool example_schema example_database example_gcv
          = Inr self'"
    and t: "tasks (task_manager self') = tasks (task_manager example_tool) @ new"
    and u: "map res_cluster (unload_sources new) =
             map (\<lambda>k. new_cluster example_tool (2 * k)
                         (unloadSource (ch_config (config_helper example_tool))))
               [0..<length (list_tables ?e example_schema)]"
    and c: "map res_cluster (copy_destinations new) =
             map (\<lambda>k. new_cluster example_tool (2 * k + 1)
                         (copyTarget (ch_config (config_helper example_tool))))
               [0..<length (list_tables ?e example_schema)]"
    and cc: "clusters_created self' =
               clusters_created example_tool + 2 * length (list_tables ?e example_schema)"
    using cluster_per_table [OF h, of ?e example_schema example_database example_gcv]
    by (elim exE conjE)
  have two: "[0..<2] = [0, Suc 0]" by (simp add: upt_rec)
  have su: "map (\<lambda>r. cluster_serial (res_cluster r)) (unload_sources new) = [0, 2]"
    using arg_cong [OF u, of "map cluster_serial"] unfolding m two
    by (simp add: new_cluster_def c0 comp_def)
  have sc: "map (\<lambda>r. cluster_serial (res_cluster r)) (copy_destinations new) = [1, 3]"
    using arg_cong [OF c, of "map cluster_serial"] unfolding m two
    by (simp add: new_cluster_def c0 comp_def)
  have cc': "clusters_created self' = 4" using cc unfolding m c0 by simp
  show ?thesis using h r t su sc cc' by (intro conjI exI [of _ self'] exI [of _ new])
qed

subsection \<open>Cluster checks without resource checks\<close>

lemma unreachable_from_cluster_check:
  assumes "(x, y) \<in> (set [(2, 0), (3, 0), (1, 4), (4, 5), (5, 6 :: nat)])\<^sup>*"
    and "x = 0 \<or> x = (2 :: nat)"
  shows "y = 0 \<or> y = 2"
  using assms by (induction rule: rtrancl_induct) auto

text \<open>
  Claim C2 at a configuration with \<open>connectionPreTest\<close> as the only flag. The constructor
  returns; the graph has the two barriers 0 and 1, the cluster checks 2 and 3 of the
  destination and the source, and the transfer tasks 4, 5 and 6. The cluster checks
  lead to barrier 0 and nothing leaves barrier 0: neither barrier 1 nor the unload task
  4 is reachable from the cluster check 2, so the transfer is not ordered after the
  cluster checks.
\<close>

theorem cluster_checks_do_not_gate:
  "map_sum fst (\<lambda>self. (map kind_of (tasks (task_manager self)), edges (task_manager self)))
     (UnloadCopyTool_init (example_env example_table example_database) example_file
        example_region connection_only)
   = Inr ([Barrier, Barrier, ClusterCheck, ClusterCheck, Unload, Copy, Cleanup],
          [(2, 0), (3, 0), (1, 4), (4, 5), (5, 6)]) \<and>
   (2, 1) \<notin> (set [(2, 0), (3, 0), (1, 4), (4, 5), (5, 6 :: nat)])\<^sup>* \<and>
   (2, 4) \<notin> (set [(2, 0), (3, 0), (1, 4), (4, 5), (5, 6 :: nat)])\<^sup>*"
proof -
  let ?e = "example_env example_table example_database"
  let ?s0 = "barrier_state (initial_tool example_helper example_region connection_only)"
  have src: "get_source_resource_from_config_helper ?e example_helper example_region
               = example_table"
    and dst: "get_target_resource_from_config_helper ?e example_helper example_region
               = example_database"
    by (simp_all add: example_env_def)
  have t: "isinstance example_table TableResource_class"
    and d: "isinstance example_database DBResource_class"
    by (simp_all add: isinstance_def example_table_def TableResource_def example_database_def)
  obtain dest where
    disp: "dispatch ?e ?s0 example_table example_database connection_only =
             add_table_migration ?s0 example_table dest connection_only"
    using t d by (simp add: dispatch_def Let_def)
  let ?r = "table_migration_result ?s0 example_table dest connection_only"
  have "dispatch ?e ?s0 example_table example_database connection_only = Inr ?r"
    unfolding disp using tool_inv_barrier_state by (rule add_table_migration_result)
  then have run: "UnloadCopyTool_init ?e example_file example_region connection_only
                = Inr (run ?r 4)"
    using init_loaded [OF example_loaded, of example_table example_database connection_only]
    by (simp add: src dst)
  have k: "map kind_of (tasks (task_manager (run ?r 4))) =
            [Barrier, Barrier, ClusterCheck, ClusterCheck, Unload, Copy, Cleanup]"
    by (simp add: table_migration_pipeline pipeline_tasks_kinds pipeline_kinds_def
          connection_only_def)
  have es: "edges (task_manager (run ?r 4)) = [(2, 0), (3, 0), (1, 4), (4, 5), (5, 6)]"
    by (simp add: table_migration_result_def connection_only_def Let_def)
  have 1: "map_sum fst (\<lambda>self. (map kind_of (tasks (task_manager self)), edges (task_manager self)))
     (UnloadCopyTool_init ?e example_file example_region connection_only)
   = Inr ([Barrier, Barrier, ClusterCheck, ClusterCheck, Unload, Copy, Cleanup],
          [(2, 0), (3, 0), (1, 4), (4, 5), (5, 6)])"
    unfolding run by (simp only: map_sum.simps k es)
  have 2: "(2, 1) \<notin> (set [(2, 0), (3, 0), (1, 4), (4, 5), (5, 6 :: nat)])\<^sup>*"
    using unreachable_from_cluster_check [of 2 1] by auto
  have 3: "(2, 4) \<notin> (set [(2, 0), (3, 0), (1, 4), (4, 5), (5, 6 :: nat)])\<^sup>*"
    using unreachable_from_cluster_check [of 2 4] by auto
  show ?thesis using 1 2 3 by (intro conjI)
qed

end
